theory Spec2Isabelle
  imports Main "HOL-Library.Char_ord" "HOL-Library.List_Lexorder"
begin

section \<open>Python values, exceptions and string helpers\<close>

text \<open>
  Every Python value the program handles is modelled by one type: \<^verbatim>\<open>None\<close> is
  \<open>JNull\<close>, \<^verbatim>\<open>False\<close> is \<open>JBool False\<close>, a string is \<open>JStr\<close>, a list is \<open>JArr\<close>.
  The lecture metadata (\<^verbatim>\<open>video_json\<close>) is the result of \<^verbatim>\<open>json.loads\<close>: nested
  dictionaries, lists, strings, numbers, booleans and \<^verbatim>\<open>None\<close>. A dictionary is an
  association list read with \<open>map_of\<close>. Every exception of the source that a claim
  depends on is a value of \<open>exn\<close>; a computation that may raise returns \<open>exn + 'a\<close>
  with \<open>Inl\<close> for the exception.
\<close>

datatype exn =
    KeyError | TypeError | IndexError | ValueError | AttributeError
  | TimeoutException | StaleElementReferenceException
  | NoneWereFound | AssertionError | NameError | UnboundLocalError | OtherException

datatype json =
    JNull | JBool bool | JNum int | JStr string
  | JArr "json list" | JObj "(string \<times> json) list"

text \<open>\<^verbatim>\<open>v[k]\<close> for a string key: only a dictionary can be read that way.\<close>

fun getitem :: "json \<Rightarrow> string \<Rightarrow> exn + json" where
  "getitem (JObj kvs) k = (case map_of kvs k of None \<Rightarrow> Inl KeyError | Some v \<Rightarrow> Inr v)"
| "getitem _ k = Inl TypeError"

text \<open>\<^verbatim>\<open>v[k1][k2]...\<close>, left to right, stopping at the first exception.\<close>

fun getpath :: "json \<Rightarrow> string list \<Rightarrow> exn + json" where
  "getpath v [] = Inr v"
| "getpath v (k # ks) = (case getitem v k of Inl e \<Rightarrow> Inl e | Inr w \<Rightarrow> getpath w ks)"

text \<open>\<^verbatim>\<open>v[0]\<close>.\<close>

fun getitem0 :: "json \<Rightarrow> exn + json" where
  "getitem0 (JArr []) = Inl IndexError"
| "getitem0 (JArr (x # xs)) = Inr x"
| "getitem0 (JStr []) = Inl IndexError"
| "getitem0 (JStr (c # cs)) = Inr (JStr [c])"
| "getitem0 (JObj kvs) = Inl KeyError"
| "getitem0 _ = Inl TypeError"

text \<open>Truth value of a Python object, as \<^verbatim>\<open>not v\<close> and \<^verbatim>\<open>if v\<close> read it.\<close>

fun truthy :: "json \<Rightarrow> bool" where
  "truthy JNull = False"
| "truthy (JBool b) = b"
| "truthy (JNum n) = (n \<noteq> 0)"
| "truthy (JStr s) = (s \<noteq> [])"
| "truthy (JArr xs) = (xs \<noteq> [])"
| "truthy (JObj kvs) = (kvs \<noteq> [])"

text \<open>\<^verbatim>\<open>for x in v\<close>: the elements of a list, the keys of a dictionary, the characters of a string.\<close>

fun iterate :: "json \<Rightarrow> exn + json list" where
  "iterate (JArr xs) = Inr xs"
| "iterate (JObj kvs) = Inr (map (\<lambda>kv. JStr (fst kv)) kvs)"
| "iterate (JStr s) = Inr (map (\<lambda>c. JStr [c]) s)"
| "iterate _ = Inl TypeError"

text \<open>\<^verbatim>\<open>[f(x) for x in xs]\<close> where \<open>f\<close> may raise: the first exception ends the comprehension.\<close>

fun map_exn :: "('a \<Rightarrow> exn + 'b) \<Rightarrow> 'a list \<Rightarrow> exn + 'b list" where
  "map_exn f [] = Inr []"
| "map_exn f (x # xs) =
     (case f x of Inl e \<Rightarrow> Inl e
      | Inr y \<Rightarrow> (case map_exn f xs of Inl e \<Rightarrow> Inl e | Inr ys \<Rightarrow> Inr (y # ys)))"

text \<open>\<^verbatim>\<open>s.endswith(suf)\<close>.\<close>

definition endswith :: "string \<Rightarrow> string \<Rightarrow> bool" where
  "endswith s suf = (length suf \<le> length s \<and> drop (length s - length suf) s = suf)"

section \<open>The page-fetch retry loop\<close>

text \<open>
  Both \<^verbatim>\<open>EchoVideo._loop_find_m3u8_url\<close> and the nested \<^verbatim>\<open>brute_force_get_url\<close> of
  \<^verbatim>\<open>EchoCloudVideo._loop_find_m3u8_url\<close> are the same \<^verbatim>\<open>while True\<close> loop around a
  different \<^verbatim>\<open>try\<close> body:
  \<^verbatim>\<open>
    stale_attempt = 1
    refresh_attempt = 1
    while True:
        self._driver.get(video_url)
        try:
            return <body>
        except selenium.common.exceptions.TimeoutException:
            if refresh_attempt >= max_attempts: raise
            refresh_attempt += 1
        except StaleElementReferenceException:
            if stale_attempt >= max_attempts: raise
            stale_attempt += 1
  \<close>
  The browser is the environment: what the \<open>i\<close>-th pass through the loop meets is given
  by a function from the pass number to an \<open>attempt\<close>. \<^verbatim>\<open>driver.get\<close> stands before the
  \<^verbatim>\<open>try\<close>, so an exception of it leaves the loop at once.
\<close>

datatype 'a attempt = GetRaised exn | TryRaised exn | TryReturned 'a

function retry_loop :: "int \<Rightarrow> (nat \<Rightarrow> 'a attempt) \<Rightarrow> nat \<Rightarrow> int \<Rightarrow> int \<Rightarrow> exn + 'a" where
  "retry_loop max_attempts page i stale_attempt refresh_attempt =
     (case page i of
        GetRaised e \<Rightarrow> Inl e
      | TryReturned v \<Rightarrow> Inr v
      | TryRaised e \<Rightarrow>
          if e = TimeoutException then
            if refresh_attempt \<ge> max_attempts then Inl e
            else retry_loop max_attempts page (i + 1) stale_attempt (refresh_attempt + 1)
          else if e = StaleElementReferenceException then
            if stale_attempt \<ge> max_attempts then Inl e
            else retry_loop max_attempts page (i + 1) (stale_attempt + 1) refresh_attempt
          else Inl e)"
  by pat_completeness auto
termination
  by (relation "measure (\<lambda>(m, page, i, s, r). nat (m - s) + nat (m - r))") auto

declare retry_loop.simps [simp del]

text \<open>\<^verbatim>\<open>EchoVideo._loop_find_m3u8_url\<close>: the body returns the \<^verbatim>\<open>src\<close> attribute of the player.\<close>

definition EchoVideo_loop_find_m3u8_url :: "int \<Rightarrow> (nat \<Rightarrow> json attempt) \<Rightarrow> exn + json" where
  "EchoVideo_loop_find_m3u8_url max_attempts page = retry_loop max_attempts page 0 1 1"

text \<open>
  \<^verbatim>\<open>brute_force_get_url(suffix)\<close>: the body returns
  \<^verbatim>\<open>set(re.findall('https://[^,"]*?[.]{}'.format(suffix), page_source))\<close>; the list that
  \<^verbatim>\<open>re.findall\<close> gives on the page of pass \<open>i\<close> is \<open>findall suffix i\<close>.
\<close>

definition brute_force_get_url ::
  "int \<Rightarrow> (string \<Rightarrow> nat \<Rightarrow> string list attempt) \<Rightarrow> string \<Rightarrow> exn + string set" where
  "brute_force_get_url max_attempts findall suffix =
     (case retry_loop max_attempts (findall suffix) 0 1 1 of
        Inl e \<Rightarrow> Inl e
      | Inr found \<Rightarrow> Inr (set found))"

section \<open>Resolution strategies of \<^verbatim>\<open>EchoCloudVideo._loop_find_m3u8_url\<close>\<close>

text \<open>
  \<^verbatim>\<open>
    def brute_force_get_mp4_url():
        urls = brute_force_get_url(suffix="mp4")
        if len(urls) == 0:
            raise Exception("None were found.")
        return sorted(urls)[:2]
  \<close>
  \<^verbatim>\<open>sorted\<close> of a set of strings is the ascending list of its elements.
\<close>

definition brute_force_get_mp4_url ::
  "int \<Rightarrow> (string \<Rightarrow> nat \<Rightarrow> string list attempt) \<Rightarrow> exn + string list" where
  "brute_force_get_mp4_url max_attempts findall =
     (case brute_force_get_url max_attempts findall ''mp4'' of
        Inl e \<Rightarrow> Inl e
      | Inr urls \<Rightarrow>
          if card urls = 0 then Inl NoneWereFound
          else Inr (take 2 (sorted_list_of_set urls)))"

text \<open>
  \<^verbatim>\<open>
    def from_json_mp4():
        mp4_files = self.video_json["lesson"]["video"]["media"]["media"]["current"]["primaryFiles"]
        urls = [obj["s3Url"] for obj in mp4_files]
        if len(urls) == 0:
            raise ValueError("Cannot find mp4 urls")
        return next(reversed(urls))
  \<close>
\<close>

definition from_json_mp4 :: "json \<Rightarrow> exn + json" where
  "from_json_mp4 video_json =
     (case getpath video_json
             [''lesson'', ''video'', ''media'', ''media'', ''current'', ''primaryFiles''] of
        Inl e \<Rightarrow> Inl e
      | Inr mp4_files \<Rightarrow>
          (case iterate mp4_files of
             Inl e \<Rightarrow> Inl e
           | Inr objs \<Rightarrow>
               (case map_exn (\<lambda>obj. getitem obj ''s3Url'') objs of
                  Inl e \<Rightarrow> Inl e
                | Inr urls \<Rightarrow>
                    if length urls = 0 then Inl ValueError
                    else Inr (hd (rev urls)))))"

text \<open>
  \<^verbatim>\<open>urlparse\<close> is the standard library's; the model takes it as a parameter that gives
  the three components the source reads.
\<close>

record parse_result =
  scheme :: string
  netloc :: string
  path :: string

text \<open>
  \<^verbatim>\<open>
    def from_json_m3u8():
        if (not self.video_json["lesson"]["hasVideo"]
                or not self.video_json["lesson"]["hasAvailableVideo"]):
            return False
        manifests = self.video_json["lesson"]["video"]["media"]["media"]["versions"][0]["manifests"]
        m3u8urls = [m["uri"] for m in manifests]
        new_m3u8urls = []
        new_hostname = urlparse(self.hostname).netloc
        for url in m3u8urls:
            parse_result = urlparse(url)
            new_m3u8urls.append("{}://content.{}{}".format(
                parse_result.scheme, new_hostname, parse_result.path))
        return new_m3u8urls
  \<close>
\<close>

definition rewrite_host :: "string \<Rightarrow> parse_result \<Rightarrow> string" where
  "rewrite_host new_hostname p = scheme p @ ''://content.'' @ new_hostname @ path p"

definition from_json_m3u8 ::
  "(json \<Rightarrow> exn + parse_result) \<Rightarrow> string \<Rightarrow> json \<Rightarrow> exn + json" where
  "from_json_m3u8 urlparse hostname video_json =
     (case getpath video_json [''lesson'', ''hasVideo''] of
        Inl e \<Rightarrow> Inl e
      | Inr hasVideo \<Rightarrow>
          if \<not> truthy hasVideo then Inr (JBool False)
          else
            (case getpath video_json [''lesson'', ''hasAvailableVideo''] of
               Inl e \<Rightarrow> Inl e
             | Inr hasAvailableVideo \<Rightarrow>
                 if \<not> truthy hasAvailableVideo then Inr (JBool False)
                 else
                   (case getpath video_json
                           [''lesson'', ''video'', ''media'', ''media'', ''versions''] of
                      Inl e \<Rightarrow> Inl e
                    | Inr versions \<Rightarrow>
                   (case getitem0 versions of
                      Inl e \<Rightarrow> Inl e
                    | Inr version \<Rightarrow>
                   (case getitem version ''manifests'' of
                      Inl e \<Rightarrow> Inl e
                    | Inr manifests \<Rightarrow>
                   (case iterate manifests of
                      Inl e \<Rightarrow> Inl e
                    | Inr ms \<Rightarrow>
                   (case map_exn (\<lambda>m. getitem m ''uri'') ms of
                      Inl e \<Rightarrow> Inl e
                    | Inr m3u8urls \<Rightarrow>
                   (case urlparse (JStr hostname) of
                      Inl e \<Rightarrow> Inl e
                    | Inr h \<Rightarrow>
                   (case map_exn urlparse m3u8urls of
                      Inl e \<Rightarrow> Inl e
                    | Inr ps \<Rightarrow> Inr (JArr (map (\<lambda>p. JStr (rewrite_host (netloc h) p)) ps)))))))))))"

text \<open>
  The chain of \<^verbatim>\<open>EchoCloudVideo._loop_find_m3u8_url\<close>:
  \<^verbatim>\<open>
    try:
        return from_json_mp4()
    except Exception as e: ...
    try:
        m3u8urls = from_json_m3u8()
    except Exception as e: ...
    try:
        return brute_force_get_mp4_url()
    except Exception as e: ...
    try:
        m3u8urls = brute_force_get_url(suffix="m3u8")
    except Exception as e:
        raise
    m3u8urls = [url for url in m3u8urls if url.endswith("av.m3u8")]
    if len(m3u8urls) == 0:
        return False
    m3u8urls = list(reversed(m3u8urls))
    return m3u8urls[:2]
  \<close>
  The second \<^verbatim>\<open>try\<close> only assigns \<^verbatim>\<open>m3u8urls\<close>; control goes on to the third
  \<^verbatim>\<open>try\<close> whatever it gave, and the fourth assigns \<^verbatim>\<open>m3u8urls\<close> again or raises.
  The order in which Python iterates the set of the fourth strategy is not fixed by the
  program: \<open>set_iter\<close> gives it.
\<close>

definition EchoCloudVideo_loop_find_m3u8_url ::
  "(json \<Rightarrow> exn + parse_result) \<Rightarrow> (string set \<Rightarrow> string list) \<Rightarrow>
   (string \<Rightarrow> nat \<Rightarrow> string list attempt) \<Rightarrow> int \<Rightarrow> string \<Rightarrow> json \<Rightarrow> exn + json" where
  "EchoCloudVideo_loop_find_m3u8_url urlparse set_iter findall max_attempts hostname video_json =
     (case from_json_mp4 video_json of
        Inr url \<Rightarrow> Inr url
      | Inl e1 \<Rightarrow>
          (let m3u8urls_json =
                 (case from_json_m3u8 urlparse hostname video_json of
                    Inr r \<Rightarrow> Some r
                  | Inl e2 \<Rightarrow> None)
           in
             (case brute_force_get_mp4_url max_attempts findall of
                Inr urls \<Rightarrow> Inr (JArr (map JStr urls))
              | Inl e3 \<Rightarrow>
                  (case brute_force_get_url max_attempts findall ''m3u8'' of
                     Inl e4 \<Rightarrow> Inl e4
                   | Inr found \<Rightarrow>
                       (let m3u8urls = filter (\<lambda>url. endswith url ''av.m3u8'') (set_iter found)
                        in if length m3u8urls = 0 then Inr (JBool False)
                           else Inr (JArr (map JStr (take 2 (rev m3u8urls)))))))))"

section \<open>Dates\<close>

text \<open>
  \<^verbatim>\<open>
    def get_date(self, video_json):
        try:
            date = dateutil.parser.parse(self._extract_date(video_json)).date()
            return date.strftime("%Y-%m-%d")
        except Exception:
            return "1970-01-01"
  \<close>
  \<^verbatim>\<open>_extract_date\<close> is the method of the object's class, so it is a parameter here.
  \<open>parse_date v\<close> is \<^verbatim>\<open>dateutil.parser.parse(v).date().strftime("%Y-%m-%d")\<close>, with
  \<open>None\<close> where the library raises.
\<close>

definition get_date ::
  "(json \<Rightarrow> string option) \<Rightarrow> (json \<Rightarrow> exn + json) \<Rightarrow> json \<Rightarrow> string" where
  "get_date parse_date extract_date video_json =
     (case extract_date video_json of
        Inl e \<Rightarrow> ''1970-01-01''
      | Inr v \<Rightarrow> (case parse_date v of None \<Rightarrow> ''1970-01-01'' | Some d \<Rightarrow> d))"

text \<open>\<^verbatim>\<open>EchoVideo._extract_date\<close>: \<^verbatim>\<open>return video_json["startTime"]\<close>.\<close>

definition EchoVideo_extract_date :: "json \<Rightarrow> exn + json" where
  "EchoVideo_extract_date video_json = getitem video_json ''startTime''"

text \<open>\<^verbatim>\<open>sub in s\<close> for strings.\<close>

fun is_substring :: "string \<Rightarrow> string \<Rightarrow> bool" where
  "is_substring sub [] = (sub = [])"
| "is_substring sub (c # cs) = (take (length sub) (c # cs) = sub \<or> is_substring sub cs)"

text \<open>\<^verbatim>\<open>k in v\<close>: a key of a dictionary, an element of a list, a substring of a string.\<close>

fun contains :: "json \<Rightarrow> string \<Rightarrow> exn + bool" where
  "contains (JObj kvs) k = Inr (k \<in> set (map fst kvs))"
| "contains (JArr xs) k = Inr (JStr k \<in> set xs)"
| "contains (JStr s) k = Inr (is_substring k s)"
| "contains _ k = Inl TypeError"

text \<open>
  The key that the multi-part branch of \<^verbatim>\<open>EchoCloudVideo._extract_date\<close> reads after
  \<^verbatim>\<open>createdAt\<close>: the twelve characters \<^verbatim>\<open>u'updatedAt'\<close>, quotes included.
\<close>

definition updatedAt_key :: string where
  "updatedAt_key = ''u'updatedAt'' @ [CHR 0x27]"

text \<open>
  \<^verbatim>\<open>
    def _extract_date(self, video_json):
        if self.is_multipart_video:
            if video_json["groupInfo"]["createdAt"] is not None:
                return video_json["groupInfo"]["createdAt"]
            if video_json["groupInfo"]["u'updatedAt'"] is not None:
                return video_json["groupInfo"]["u'updatedAt'"]
        if "startTimeUTC" in video_json["lesson"]:
            if video_json["lesson"]["startTimeUTC"] is not None:
                return video_json["lesson"]["startTimeUTC"]
        if "createdAt" in video_json["lesson"]["lesson"]:
            return video_json["lesson"]["lesson"]["createdAt"]
  \<close>
  The first function is the part below the multi-part branch; it ends with Python's
  implicit \<^verbatim>\<open>return None\<close>.
\<close>

definition lesson_extract_date :: "json \<Rightarrow> exn + json" where
  "lesson_extract_date video_json =
     (case getitem video_json ''lesson'' of
        Inl e \<Rightarrow> Inl e
      | Inr lesson \<Rightarrow>
     (case contains lesson ''startTimeUTC'' of
        Inl e \<Rightarrow> Inl e
      | Inr has_start \<Rightarrow>
     (case (if has_start then getitem lesson ''startTimeUTC'' else Inr JNull) of
        Inl e \<Rightarrow> Inl e
      | Inr start \<Rightarrow>
          if has_start \<and> start \<noteq> JNull then Inr start
          else
            (case getitem lesson ''lesson'' of
               Inl e \<Rightarrow> Inl e
             | Inr inner \<Rightarrow>
            (case contains inner ''createdAt'' of
               Inl e \<Rightarrow> Inl e
             | Inr has_created \<Rightarrow>
                 if has_created then getitem inner ''createdAt'' else Inr JNull)))))"

definition EchoCloudVideo_extract_date :: "bool \<Rightarrow> json \<Rightarrow> exn + json" where
  "EchoCloudVideo_extract_date is_multipart_video video_json =
     (if is_multipart_video then
        (case getpath video_json [''groupInfo'', ''createdAt''] of
           Inl e \<Rightarrow> Inl e
         | Inr created \<Rightarrow>
             if created \<noteq> JNull then Inr created
             else
               (case getpath video_json [''groupInfo'', updatedAt_key] of
                  Inl e \<Rightarrow> Inl e
                | Inr updated \<Rightarrow>
                    if updated \<noteq> JNull then Inr updated
                    else lesson_extract_date video_json))
      else lesson_extract_date video_json)"

section \<open>Paths and strings of the standard library\<close>

text \<open>\<^verbatim>\<open>os.path.join(a, b)\<close> of \<^verbatim>\<open>posixpath\<close>, for two components.\<close>

definition path_join :: "string \<Rightarrow> string \<Rightarrow> string" where
  "path_join a b =
     (if b \<noteq> [] \<and> hd b = CHR ''/'' then b
      else if a = [] \<or> last a = CHR ''/'' then a @ b
      else a @ ''/'' @ b)"

text \<open>
  \<^verbatim>\<open>os.path.dirname(p)\<close>: everything up to the last slash, without trailing slashes
  unless it consists of slashes only.
\<close>

definition dirname :: "string \<Rightarrow> string" where
  "dirname p =
     (let head = rev (dropWhile (\<lambda>c. c \<noteq> CHR ''/'') (rev p))
      in if head \<noteq> [] \<and> (\<exists>c \<in> set head. c \<noteq> CHR ''/'')
         then rev (dropWhile (\<lambda>c. c = CHR ''/'') (rev head))
         else head)"

text \<open>\<^verbatim>\<open>os.path.basename(p)\<close>: what follows the last slash.\<close>

definition basename :: "string \<Rightarrow> string" where
  "basename p = rev (takeWhile (\<lambda>c. c \<noteq> CHR ''/'') (rev p))"

text \<open>
  \<^verbatim>\<open>os.path.splitext(b)[0]\<close> for a name \<open>b\<close> without slash: \<open>b\<close> up to its last
  dot, unless nothing but dots stands before that dot.
\<close>

definition splitext_root :: "string \<Rightarrow> string" where
  "splitext_root b =
     (if CHR ''.'' \<notin> set b then b
      else
        (let root = rev (tl (dropWhile (\<lambda>c. c \<noteq> CHR ''.'') (rev b)))
         in if \<forall>c \<in> set root. c = CHR ''.'' then b else root))"

text \<open>\<^verbatim>\<open>s.split(".")[-1]\<close>: what follows the last dot, the whole string if there is none.\<close>

definition last_segment :: "string \<Rightarrow> string" where
  "last_segment s = rev (takeWhile (\<lambda>c. c \<noteq> CHR ''.'') (rev s))"

text \<open>\<^verbatim>\<open>s.split("\n")\<close>.\<close>

fun split_lines :: "string \<Rightarrow> string list" where
  "split_lines [] = [[]]"
| "split_lines (c # cs) =
     (if c = CHR 0x0A then [] # split_lines cs
      else (case split_lines cs of [] \<Rightarrow> [[c]] | l # ls \<Rightarrow> (c # l) # ls))"

text \<open>\<^verbatim>\<open>s.lower()\<close> on the ASCII letters.\<close>

definition lower :: "string \<Rightarrow> string" where
  "lower s =
     map (\<lambda>c. case map_of (zip ''ABCDEFGHIJKLMNOPQRSTUVWXYZ'' ''abcdefghijklmnopqrstuvwxyz'') c of
                 None \<Rightarrow> c
               | Some l \<Rightarrow> l) s"

text \<open>\<^verbatim>\<open>str(n)\<close> for a natural number.\<close>

fun str_nat :: "nat \<Rightarrow> string" where
  "str_nat n =
     (if n < 10 then [''0123456789'' ! n]
      else str_nat (n div 10) @ [''0123456789'' ! (n mod 10)])"

declare str_nat.simps [simp del]

section \<open>The world outside the program\<close>

text \<open>
  The file system is a map from paths to contents (directories are not part of it:
  \<^verbatim>\<open>os.makedirs\<close> changes no file). Every network transfer and every run of the mux
  tool is appended to a log, so that "no transfer" and "no mux invocation" are
  statements about the state.
\<close>

datatype request = GET string | HEAD string | HLS string

record mux_request =
  video_input :: string
  audio_input :: "string option"
  mux_output :: string

record world =
  files :: "string \<rightharpoonup> string"
  requests :: "request list"
  mux_runs :: "mux_request list"
  visited :: "string list"

record response =
  status_code :: int
  content :: string

text \<open>
  What \<^verbatim>\<open>ffmpy.FFmpeg(...).run()\<close> does: the executable is missing, it exits with a
  non-zero status, or it writes the output file.
\<close>

datatype mux_outcome = FFExecutableNotFoundError | FFRuntimeError | Muxed string

text \<open>
  The collaborators of the program. \<open>strip_illegal_path\<close> (\<^verbatim>\<open>utils.py\<close>),
  \<^verbatim>\<open>NaiveM3U8Parser\<close>, \<^verbatim>\<open>urljoin\<close> and \<^verbatim>\<open>Downloader\<close> (\<^verbatim>\<open>hls_downloader.py\<close>) are
  modules of the repository that the verified files import; the rest is the standard
  library, \<^verbatim>\<open>requests\<close>, \<^verbatim>\<open>dateutil\<close>, \<^verbatim>\<open>ffmpy\<close> and the browser.
  \<^item> \<open>py_str v\<close> is \<^verbatim>\<open>str(v)\<close>, which \<^verbatim>\<open>format\<close> and f-strings apply;
  \<^item> \<open>lib_parse_date\<close>, \<open>lib_urlparse\<close>, \<open>lib_set_iter\<close> as described above;
  \<^item> \<open>page_findall video_url suffix i\<close> and \<open>player_src video_url i\<close>: what pass \<open>i\<close> of a
    retry loop on that page meets;
  \<^item> \<open>no_content video_url\<close>: the page source holds the "no content" notice;
  \<^item> \<open>session_get\<close>, \<open>requests_get\<close>: the response to a GET;
  \<^item> \<open>m3u8_parse lines\<close>: \<^verbatim>\<open>parse()\<close> followed by \<^verbatim>\<open>get_video_and_audio()\<close>;
  \<^item> \<open>hls_download url output_dir\<close>: the name and the content of the file that
    \<^verbatim>\<open>Downloader.run\<close> leaves behind (\<^verbatim>\<open>result_file_name\<close>);
  \<^item> \<open>ffmpeg\<close>: the outcome of the mux run for a request;
  \<^item> \<open>vtt_text\<close>, \<open>clean_text\<close>: the text transforms of \<^verbatim>\<open>_convert_vtt_to_text\<close> and
    of \<^verbatim>\<open>vtt_to_text.convert_vtt_to_text\<close>; no property below depends on the text.
\<close>

record env =
  strip_illegal_path :: "string \<Rightarrow> string"
  py_str :: "json \<Rightarrow> string"
  lib_parse_date :: "json \<Rightarrow> string option"
  lib_urlparse :: "json \<Rightarrow> exn + parse_result"
  lib_set_iter :: "string set \<Rightarrow> string list"
  page_findall :: "string \<Rightarrow> string \<Rightarrow> nat \<Rightarrow> string list attempt"
  player_src :: "string \<Rightarrow> nat \<Rightarrow> json attempt"
  no_content :: "string \<Rightarrow> bool"
  session_get :: "string \<Rightarrow> response"
  requests_get :: "string \<Rightarrow> response"
  m3u8_parse :: "string list \<Rightarrow> exn + (string option \<times> string option)"
  urljoin :: "string \<Rightarrow> string \<Rightarrow> string"
  hls_download :: "string \<Rightarrow> string \<Rightarrow> string \<times> string"
  ffmpeg :: "mux_request \<Rightarrow> mux_outcome"
  vtt_text :: "string \<Rightarrow> string"
  clean_text :: "string \<Rightarrow> string"

definition exists :: "world \<Rightarrow> string \<Rightarrow> bool" where
  "exists w p = (files w p \<noteq> None)"

definition write_file :: "string \<Rightarrow> string \<Rightarrow> world \<Rightarrow> world" where
  "write_file p c w = w\<lparr>files := (files w)(p \<mapsto> c)\<rparr>"

definition remove :: "string \<Rightarrow> world \<Rightarrow> world" where
  "remove p w = w\<lparr>files := (files w)(p := None)\<rparr>"

definition rename :: "string \<Rightarrow> string \<Rightarrow> world \<Rightarrow> world" where
  "rename src dst w =
     (if src = dst then w
      else w\<lparr>files := (files w)(dst := files w src, src := None)\<rparr>)"

definition log_request :: "request \<Rightarrow> world \<Rightarrow> world" where
  "log_request r w = w\<lparr>requests := requests w @ [r]\<rparr>"

section \<open>Lecture objects\<close>

text \<open>
  \<^verbatim>\<open>EchoVideo\<close> has the attributes \<^verbatim>\<open>_url\<close>, \<^verbatim>\<open>_date\<close>, \<^verbatim>\<open>_title\<close>;
  \<^verbatim>\<open>EchoCloudVideo\<close> extends it. An attribute that \<^verbatim>\<open>__init__\<close> leaves unset is
  \<open>JNull\<close> (\<open>[]\<close> for the identifier).
\<close>

record EchoVideo =
  self_url :: json
  self_date :: string
  self_title :: json

record EchoCloudVideo = EchoVideo +
  self_hostname :: string
  self_path_prefix :: json
  self_video_json :: json
  self_is_multipart_video :: bool
  self_download_alternative_feeds :: bool
  self_download_subtitles :: bool
  self_course_name :: string
  self_video_id :: string

text \<open>\<^verbatim>\<open>"{}/lesson/{}/classroom".format(hostname, video_id)\<close>.\<close>

definition classroom_url :: "string \<Rightarrow> string \<Rightarrow> string" where
  "classroom_url hostname video_id = hostname @ ''/lesson/'' @ video_id @ ''/classroom''"

text \<open>
  \<^verbatim>\<open>EchoVideo.__init__\<close>. A \<^verbatim>\<open>KeyError\<close> goes to \<^verbatim>\<open>_blow_up(self, str, e)\<close>, whose
  \<^verbatim>\<open>str(e)\<close> calls its own string parameter: the constructor ends with \<^verbatim>\<open>TypeError\<close>.
  \<^verbatim>\<open>get_date\<close> is handed \<^verbatim>\<open>video_json["startTime"]\<close>.
\<close>

definition EchoVideo_init :: "env \<Rightarrow> json \<Rightarrow> exn + EchoVideo" where
  "EchoVideo_init ev video_json =
     (case
        (case getitem video_json ''richMedia'' of
           Inl e \<Rightarrow> Inl e
         | Inr rich \<Rightarrow>
             (let video_url = py_str ev rich in
             (case EchoVideo_loop_find_m3u8_url 5 (player_src ev video_url) of
                Inl e \<Rightarrow> Inl e
              | Inr m3u8_url \<Rightarrow>
             (case getitem video_json ''startTime'' of
                Inl e \<Rightarrow> Inl e
              | Inr start \<Rightarrow>
             (case getitem video_json ''title'' of
                Inl e \<Rightarrow> Inl e
              | Inr title \<Rightarrow>
                  Inr \<lparr>self_url = m3u8_url,
                       self_date = get_date (lib_parse_date ev) EchoVideo_extract_date start,
                       self_title = title\<rparr>))))) of
        Inl e \<Rightarrow> if e = KeyError then Inl TypeError else Inl e
      | Inr v \<Rightarrow> Inr v)"

text \<open>
  \<^verbatim>\<open>EchoCloudVideo.__init__\<close>. In the multi-part branch every element of
  \<^verbatim>\<open>video_json["lessons"]\<close> is given to \<^verbatim>\<open>EchoCloudSubVideo\<close>, whose \<^verbatim>\<open>__init__\<close> calls
  \<^verbatim>\<open>EchoCloudVideo.__init__\<close> without its \<^verbatim>\<open>subtitles\<close> argument: a \<^verbatim>\<open>TypeError\<close>,
  after \<^verbatim>\<open>video_json["groupInfo"]["name"]\<close> has been read.
\<close>

definition EchoCloudVideo_init ::
  "env \<Rightarrow> json \<Rightarrow> string \<Rightarrow> bool \<Rightarrow> bool \<Rightarrow> string option \<Rightarrow> exn + EchoCloudVideo" where
  "EchoCloudVideo_init ev video_json hostname alternative_feeds subtitles course_name =
     (case getitem video_json ''path_prefix'' of
        Inl e \<Rightarrow> Inl e
      | Inr path_prefix \<Rightarrow>
     (let name = (case course_name of
                    None \<Rightarrow> ''Unknown_Course''
                  | Some n \<Rightarrow> if n = [] then ''Unknown_Course'' else n);
          this = \<lparr>self_url = JNull, self_date = [], self_title = JNull,
                  self_hostname = hostname, self_path_prefix = path_prefix,
                  self_video_json = video_json, self_is_multipart_video = False,
                  self_download_alternative_feeds = alternative_feeds,
                  self_download_subtitles = subtitles,
                  self_course_name = name, self_video_id = []\<rparr>
      in
     (case contains video_json ''lessons'' of
        Inl e \<Rightarrow> Inl e
      | Inr True \<Rightarrow>
          (case getitem video_json ''lessons'' of
             Inl e \<Rightarrow> Inl e
           | Inr lessons \<Rightarrow>
          (case iterate lessons of
             Inl e \<Rightarrow> Inl e
           | Inr [] \<Rightarrow>
               Inr (this\<lparr>self_is_multipart_video := True,
                         self_date := get_date (lib_parse_date ev)
                                        (EchoCloudVideo_extract_date True) video_json\<rparr>)
           | Inr (sub_video_json # rest) \<Rightarrow>
               (case getpath video_json [''groupInfo'', ''name''] of
                  Inl e \<Rightarrow> Inl e
                | Inr group_name \<Rightarrow> Inl TypeError)))
      | Inr False \<Rightarrow>
          (case getpath video_json [''lesson'', ''lesson'', ''id''] of
             Inl e \<Rightarrow> Inl e
           | Inr ident \<Rightarrow>
          (let video_id = py_str ev ident;
               video_url = classroom_url hostname video_id
           in
          (case (if \<not> subtitles
                 then EchoCloudVideo_loop_find_m3u8_url (lib_urlparse ev) (lib_set_iter ev)
                        (page_findall ev video_url) 5 hostname video_json
                 else Inr JNull) of
             Inl e \<Rightarrow> Inl e
           | Inr m3u8_url \<Rightarrow>
          (case getpath video_json [''lesson'', ''lesson'', ''name''] of
             Inl e \<Rightarrow> Inl e
           | Inr title \<Rightarrow>
               Inr (this\<lparr>self_video_id := video_id, self_url := m3u8_url,
                         self_date := get_date (lib_parse_date ev)
                                        (EchoCloudVideo_extract_date False) video_json,
                         self_title := title\<rparr>))))))))"

section \<open>Fetching and remuxing one lecture\<close>

text \<open>
  \<^verbatim>\<open>
    def _download_url_to_dir(self, url, output_dir, filename, pool_size, convert_to_mp4=True):
        echo360_downloader = Downloader(pool_size, selenium_cookies=self._driver.get_cookies())
        echo360_downloader.run(url, output_dir, convert_to_mp4=convert_to_mp4)
        ext = echo360_downloader.result_file_name.split(".")[-1]
        result_full_path = os.path.join(output_dir, "{0}.{1}".format(filename, ext))
        os.rename(os.path.join(echo360_downloader.result_file_name), result_full_path)
        return result_full_path
  \<close>
  The size of the worker pool changes no result and is left out.
\<close>

definition download_url_to_dir ::
  "env \<Rightarrow> string \<Rightarrow> string \<Rightarrow> string \<Rightarrow> world \<Rightarrow> string \<times> world" where
  "download_url_to_dir ev url output_dir filename w =
     (let (result_file_name, data) = hls_download ev url output_dir;
          w1 = write_file result_file_name data (log_request (HLS url) w);
          ext = last_segment result_file_name;
          result_full_path = path_join output_dir (filename @ ''.'' @ ext)
      in (result_full_path, rename result_file_name result_full_path w1))"

text \<open>
  \<^verbatim>\<open>
    @staticmethod
    def combine_audio_video(audio_file, video_file, final_file):
        if os.path.exists(final_file):
            os.remove(final_file)
        _inputs = {}
        _inputs[video_file] = None
        if audio_file is not None:
            _inputs[audio_file] = None
        try:
            ff = ffmpy.FFmpeg(global_options="-loglevel panic", inputs=_inputs,
                              outputs={final_file: ["-c:v", "copy", "-c:a", "ac3"]})
            ff.run()
        except ffmpy.FFExecutableNotFoundError:
            return False
        except ffmpy.FFRuntimeError:
            return False
        return True
  \<close>
\<close>

definition combine_audio_video ::
  "env \<Rightarrow> string option \<Rightarrow> string \<Rightarrow> string \<Rightarrow> world \<Rightarrow> bool \<times> world" where
  "combine_audio_video ev audio_file video_file final_file w =
     (let w1 = (if exists w final_file then remove final_file w else w);
          inputs = \<lparr>video_input = video_file, audio_input = audio_file,
                    mux_output = final_file\<rparr>;
          w2 = w1\<lparr>mux_runs := mux_runs w1 @ [inputs]\<rparr>
      in (case ffmpeg ev inputs of
            FFExecutableNotFoundError \<Rightarrow> (False, w2)
          | FFRuntimeError \<Rightarrow> (False, w2)
          | Muxed data \<Rightarrow> (True, write_file final_file data w2)))"

text \<open>
  The loop that looks for the identifier of the lecture's video:
  \<^verbatim>\<open>
    media_id = None
    for media in self.video_json["lesson"]["medias"]:
        if media["mediaType"] == "Video":
            media_id = media["id"]
            break
  \<close>
\<close>

fun find_media_id :: "json list \<Rightarrow> exn + json" where
  "find_media_id [] = Inr JNull"
| "find_media_id (media # rest) =
     (case getitem media ''mediaType'' of
        Inl e \<Rightarrow> Inl e
      | Inr t \<Rightarrow> if t = JStr ''Video'' then getitem media ''id'' else find_media_id rest)"

definition lesson_media_id :: "json \<Rightarrow> exn + json" where
  "lesson_media_id video_json =
     (case getpath video_json [''lesson'', ''medias''] of
        Inl e \<Rightarrow> Inl e
      | Inr medias \<Rightarrow>
          (case iterate medias of Inl e \<Rightarrow> Inl e | Inr ms \<Rightarrow> find_media_id ms))"

text \<open>
  \<^verbatim>\<open>
    f"{hostname}/api/ui/echoplayer/lessons/{video_id}/medias/{media_id}/transcript-file?format=vtt"
  \<close>
\<close>

definition transcript_url :: "string \<Rightarrow> string \<Rightarrow> string \<Rightarrow> string" where
  "transcript_url hostname video_id media_id =
     hostname @ ''/api/ui/echoplayer/lessons/'' @ video_id @ ''/medias/'' @ media_id
       @ ''/transcript-file?format=vtt''"

text \<open>
  The subtitle branch of \<^verbatim>\<open>download_single\<close> (\<^verbatim>\<open>if self.download_subtitles:\<close>). It
  returns \<open>Some\<close> of the value that \<^verbatim>\<open>download_single\<close> returns from inside the branch,
  and \<open>None\<close> when control leaves the branch at its end (the subtitle file is there
  already). The \<^verbatim>\<open>try\<close> around the search catches \<^verbatim>\<open>KeyError\<close> and \<^verbatim>\<open>IndexError\<close> only.
\<close>

definition download_subtitle ::
  "env \<Rightarrow> EchoCloudVideo \<Rightarrow> string \<Rightarrow> string \<Rightarrow> world \<Rightarrow> (exn + bool) option \<times> world" where
  "download_subtitle ev self output_dir filename w =
     (case lesson_media_id (self_video_json self) of
        Inl e \<Rightarrow>
          if e = KeyError \<or> e = IndexError then (Some (Inr False), w) else (Some (Inl e), w)
      | Inr media_id \<Rightarrow>
          if media_id = JNull then (Some (Inr False), w)
          else
            (let dirty_path = path_join output_dir (filename @ ''.vtt'');
                 clean_dir = path_join (dirname output_dir) ''clean''
             in if exists w dirty_path then (None, w)
                else
                  (let vtt_url = transcript_url (self_hostname self) (self_video_id self)
                                   (py_str ev media_id);
                       response = requests_get ev vtt_url;
                       w1 = log_request (GET vtt_url) w
                   in if status_code response = 200 then
                        (let w2 = log_request (HEAD vtt_url) w1;
                             w3 = write_file dirty_path (content response) w2;
                             clean_path = path_join clean_dir (filename @ ''.txt'');
                             w4 = write_file clean_path (vtt_text ev (content response)) w3
                         in (Some (Inr True), w4))
                      else (Some (Inr False), w1))))"

text \<open>
  The video part of \<^verbatim>\<open>download_single\<close>, from \<^verbatim>\<open>if single_url is None:\<close> on.
  \<^verbatim>\<open>single_url.endswith\<close> on a value that is no string is an \<^verbatim>\<open>AttributeError\<close>.
\<close>

definition download_video ::
  "env \<Rightarrow> json \<Rightarrow> string \<Rightarrow> string \<Rightarrow> world \<Rightarrow> (exn + bool) \<times> world" where
  "download_video ev single_url output_dir filename w =
     (if single_url = JNull then (Inr True, w)
      else if exists w (path_join output_dir (filename @ ''.mp4'')) then (Inr True, w)
      else
        (case single_url of
           JStr url \<Rightarrow>
             if endswith url ''.m3u8'' then
               (let r = session_get ev url;
                    w1 = log_request (GET url) w
                in if \<not> status_code r < 400 then (Inr False, w1)
                   else
                     (case m3u8_parse ev (split_lines (content r)) of
                        Inl e \<Rightarrow> (Inr False, w1)
                      | Inr (m3u8_video, m3u8_audio) \<Rightarrow>
                     (case m3u8_video of
                        None \<Rightarrow> (Inr False, w1)
                      | Some video_uri \<Rightarrow>
                          (let (audio_file, w2) =
                                 (case m3u8_audio of
                                    None \<Rightarrow> (None, w1)
                                  | Some audio_uri \<Rightarrow>
                                      (let (f, w') = download_url_to_dir ev (urljoin ev url audio_uri)
                                                       output_dir (filename @ ''_audio'') w1
                                       in (Some f, w')));
                               (video_file, w3) =
                                 download_url_to_dir ev (urljoin ev url video_uri)
                                   output_dir (filename @ ''_video'') w2;
                               (mixed, w4) =
                                 combine_audio_video ev audio_file video_file
                                   (path_join output_dir (filename @ ''.mp4'')) w3;
                               w5 = (if mixed
                                     then remove video_file
                                            (case audio_file of None \<Rightarrow> w4 | Some a \<Rightarrow> remove a w4)
                                     else w4)
                           in (Inr True, w5)))))
             else
               (let r = session_get ev url;
                    w1 = log_request (GET url) w
                in (Inr True, write_file (path_join output_dir (filename @ ''.mp4'')) (content r) w1))
         | _ \<Rightarrow> (Inl AttributeError, w)))"

text \<open>
  \<^verbatim>\<open>
    def download_single(self, session, single_url, output_dir, filename, pool_size):
        filename = strip_illegal_path(filename)
        if self.download_subtitles:
            ...
        # If we're not downloading subtitles, proceed with video download
        if single_url is None:
            return True
        if os.path.exists(os.path.join(output_dir, filename + ".mp4")):
            return True
        ...
  \<close>
\<close>

definition download_single ::
  "env \<Rightarrow> EchoCloudVideo \<Rightarrow> json \<Rightarrow> string \<Rightarrow> string \<Rightarrow> world \<Rightarrow> (exn + bool) \<times> world" where
  "download_single ev self single_url output_dir filename0 w =
     (let filename = strip_illegal_path ev filename0 in
      if self_download_subtitles self then
        (case download_subtitle ev self output_dir filename w of
           (Some r, w') \<Rightarrow> (r, w')
         | (None, w') \<Rightarrow> download_video ev single_url output_dir filename w')
      else download_video ev single_url output_dir filename w)"

text \<open>
  The loop of \<^verbatim>\<open>download\<close> over the attached media:
  \<^verbatim>\<open>
    for media in self.video_json["lesson"]["medias"]:
        if media["mediaType"] != "Video":
            media_filename = media["title"]
            media_filepath = os.path.join(dirty_dir, media_filename)
            media_url = f"{self.hostname}/media/download/{media['id']}/{media_filename}"
            if os.path.exists(media_filepath):
                print(...)
            else:
                response = requests.get(media_url, cookies=cookies)
                if response.status_code == 200:
                    with open(media_filepath, "wb") as file:
                        file.write(response.content)
  \<close>
\<close>

fun download_attached ::
  "env \<Rightarrow> string \<Rightarrow> string \<Rightarrow> json list \<Rightarrow> world \<Rightarrow> exn option \<times> world" where
  "download_attached ev hostname dirty_dir [] w = (None, w)"
| "download_attached ev hostname dirty_dir (media # rest) w =
     (case getitem media ''mediaType'' of
        Inl e \<Rightarrow> (Some e, w)
      | Inr t \<Rightarrow>
          if t \<noteq> JStr ''Video'' then
            (case getitem media ''title'' of
               Inl e \<Rightarrow> (Some e, w)
             | Inr (JStr media_filename) \<Rightarrow>
                 (let media_filepath = path_join dirty_dir media_filename in
                  (case getitem media ''id'' of
                     Inl e \<Rightarrow> (Some e, w)
                   | Inr ident \<Rightarrow>
                       (let media_url = hostname @ ''/media/download/'' @ py_str ev ident
                                          @ ''/'' @ media_filename
                        in if exists w media_filepath
                           then download_attached ev hostname dirty_dir rest w
                           else
                             (let response = requests_get ev media_url;
                                  w1 = log_request (GET media_url) w;
                                  w2 = (if status_code response = 200
                                        then write_file media_filepath (content response) w1
                                        else w1)
                              in download_attached ev hostname dirty_dir rest w2))))
             | Inr _ \<Rightarrow> (Some TypeError, w))
          else download_attached ev hostname dirty_dir rest w)"

text \<open>
  The loop of \<^verbatim>\<open>download\<close> over the feeds:
  \<^verbatim>\<open>
    final_result = True
    for counter, single_url in enumerate(urls):
        new_filename = (
            (filename + str(counter + 1)) if self.download_alternative_feeds else filename
        )
        result = self.download_single(session, single_url, dirty_dir, new_filename, pool_size)
        final_result = final_result and result
  \<close>
\<close>

fun download_feeds ::
  "env \<Rightarrow> EchoCloudVideo \<Rightarrow> string \<Rightarrow> string \<Rightarrow> nat \<Rightarrow> json list \<Rightarrow> bool \<Rightarrow> world
   \<Rightarrow> (exn + bool) \<times> world" where
  "download_feeds ev self dirty_dir filename counter [] final_result w = (Inr final_result, w)"
| "download_feeds ev self dirty_dir filename counter (single_url # rest) final_result w =
     (let new_filename = (if self_download_alternative_feeds self
                          then filename @ str_nat (counter + 1) else filename)
      in (case download_single ev self single_url dirty_dir new_filename w of
            (Inl e, w') \<Rightarrow> (Inl e, w')
          | (Inr result, w') \<Rightarrow>
              download_feeds ev self dirty_dir filename (counter + 1) rest
                (final_result \<and> result) w'))"

text \<open>
  \<^verbatim>\<open>
    def download(self, output_dir, filename, pool_size=50):
        course_name = strip_illegal_path(self._course_name)
        course_dir = os.path.join(output_dir, course_name)
        dirty_dir = os.path.join(course_dir, "dirty")
        ...
        if not self.download_subtitles:
            urls = self.url
            if not isinstance(urls, list):
                urls = [urls]
            if not self.download_alternative_feeds:
                urls = urls[:1]
            <attached media>
            <feeds>
        else:
            final_result = self.download_single(session, None, dirty_dir, filename, pool_size)
        return final_result
  \<close>
\<close>

definition download ::
  "env \<Rightarrow> EchoCloudVideo \<Rightarrow> string \<Rightarrow> string \<Rightarrow> world \<Rightarrow> (exn + bool) \<times> world" where
  "download ev self output_dir filename w =
     (let course_name = strip_illegal_path ev (self_course_name self);
          course_dir = path_join output_dir course_name;
          dirty_dir = path_join course_dir ''dirty''
      in if \<not> self_download_subtitles self then
           (let urls0 = (case self_url self of JArr us \<Rightarrow> us | u \<Rightarrow> [u]);
                urls = (if \<not> self_download_alternative_feeds self then take 1 urls0 else urls0)
            in (case (case getpath (self_video_json self) [''lesson'', ''medias''] of
                        Inl e \<Rightarrow> (Some e, w)
                      | Inr medias \<Rightarrow>
                          (case iterate medias of
                             Inl e \<Rightarrow> (Some e, w)
                           | Inr ms \<Rightarrow> download_attached ev (self_hostname self) dirty_dir ms w)) of
                  (Some e, w1) \<Rightarrow> (Inl e, w1)
                | (None, w1) \<Rightarrow> download_feeds ev self dirty_dir filename 0 urls True w1))
         else download_single ev self JNull dirty_dir filename w)"

section \<open>Collections of lectures\<close>

text \<open>
  \<^verbatim>\<open>EchoVideos.__init__\<close>:
  \<^verbatim>\<open>
    assert videos_json is not None
    for i, video_json in enumerate(videos_json):
        self._videos.append(EchoVideo(video_json, self._driver))
    self._videos.sort(key=operator.attrgetter("date"))
  \<close>
  \<^verbatim>\<open>list.sort\<close> with a key is stable, as \<open>sort_key\<close> is.
\<close>

definition EchoVideos_init :: "env \<Rightarrow> json \<Rightarrow> exn + EchoVideo list" where
  "EchoVideos_init ev videos_json =
     (if videos_json = JNull then Inl AssertionError
      else
        (case iterate videos_json of
           Inl e \<Rightarrow> Inl e
         | Inr vjs \<Rightarrow>
             (case map_exn (EchoVideo_init ev) vjs of
                Inl e \<Rightarrow> Inl e
              | Inr videos \<Rightarrow> Inr (sort_key self_date videos))))"

text \<open>
  \<^verbatim>\<open>EchoCloudVideos.__init__\<close> of \<^verbatim>\<open>course.py\<close> (the class that \<^verbatim>\<open>EchoCloudCourse\<close>
  instantiates):
  \<^verbatim>\<open>
    videos_json = []
    for item in course_json:
        if type(item) is dict:
            if "lesson" in item["type"].lower():
                videos_json.append(item)
    for video_json in videos_json:
        try:
            self._videos.append(EchoCloudVideo(video_json, self._driver, hostname,
                                alternative_feeds, subtitles, course_name=self._course_name))
        except Exception:
            if not skip_video_on_error:
                raise
    self._videos.sort(key=operator.attrgetter("date"))
  \<close>
\<close>

fun lesson_items :: "json list \<Rightarrow> exn + json list" where
  "lesson_items [] = Inr []"
| "lesson_items (item # rest) =
     (case item of
        JObj kvs \<Rightarrow>
          (case getitem item ''type'' of
             Inl e \<Rightarrow> Inl e
           | Inr (JStr t) \<Rightarrow>
               (case lesson_items rest of
                  Inl e \<Rightarrow> Inl e
                | Inr r \<Rightarrow> Inr (if is_substring ''lesson'' (lower t) then item # r else r))
           | Inr _ \<Rightarrow> Inl AttributeError)
      | _ \<Rightarrow> lesson_items rest)"

text \<open>
  \<^verbatim>\<open>course.py\<close> imports only \<^verbatim>\<open>EchoVideos\<close> and \<^verbatim>\<open>EchoCloudVideos\<close> from
  \<^verbatim>\<open>videos.py\<close> (\<^verbatim>\<open>from .videos import EchoVideos, EchoCloudVideos\<close>) and defines no
  \<^verbatim>\<open>EchoCloudVideo\<close>. In this module the call \<^verbatim>\<open>EchoCloudVideo(...)\<close> therefore fails when
  the name is looked up, before any argument is read: a \<^verbatim>\<open>NameError\<close>, which the
  \<^verbatim>\<open>except Exception\<close> of the loop catches.
\<close>

definition course_EchoCloudVideo :: "json \<Rightarrow> exn + EchoCloudVideo" where
  "course_EchoCloudVideo video_json = Inl NameError"

fun build_videos :: "bool \<Rightarrow> json list \<Rightarrow> exn + EchoCloudVideo list" where
  "build_videos skip_video_on_error [] = Inr []"
| "build_videos skip_video_on_error (video_json # rest) =
     (case course_EchoCloudVideo video_json of
        Inl e \<Rightarrow>
          if \<not> skip_video_on_error then Inl e
          else build_videos skip_video_on_error rest
      | Inr v \<Rightarrow>
          (case build_videos skip_video_on_error rest of
             Inl e \<Rightarrow> Inl e
           | Inr vs \<Rightarrow> Inr (v # vs)))"

definition EchoCloudVideos_init ::
  "env \<Rightarrow> json \<Rightarrow> string \<Rightarrow> bool \<Rightarrow> bool \<Rightarrow> string option \<Rightarrow> bool
   \<Rightarrow> exn + EchoCloudVideo list" where
  "EchoCloudVideos_init ev course_json hostname alternative_feeds subtitles course_name
     skip_video_on_error =
     (if course_json = JNull then Inl AssertionError
      else
        (case iterate course_json of
           Inl e \<Rightarrow> Inl e
         | Inr items \<Rightarrow>
             (case lesson_items items of
                Inl e \<Rightarrow> Inl e
              | Inr videos_json \<Rightarrow>
                  (case build_videos skip_video_on_error videos_json of
                     Inl e \<Rightarrow> Inl e
                   | Inr videos \<Rightarrow> Inr (sort_key self_date videos)))))"

section \<open>The traversal of \<^verbatim>\<open>EchoCloudCourse.get_videos\<close>\<close>

text \<open>
  The attributes of the course object that the traversal reads and writes, with the local
  variables of \<^verbatim>\<open>get_videos\<close>. \<open>filename_bound\<close> says whether the local \<^verbatim>\<open>filename\<close>
  has been assigned: the \<^verbatim>\<open>except\<close> clause of the transcript block formats it, which is
  an \<^verbatim>\<open>UnboundLocalError\<close> before the first assignment. \<open>lecture_count\<close> is what
  \<^verbatim>\<open>_count_lectures\<close> returned before the loop.
\<close>

record course =
  lecture_count :: int
  processed_lectures :: int
  skipped_lectures :: int
  processed_lecture_dates :: "string set"
  processed_videos :: "json list"
  queue :: "(json \<times> string) list"
  found_future_lecture :: bool
  filename_bound :: bool

text \<open>\<^verbatim>\<open>d[k] = v\<close> on a dictionary.\<close>

fun update_key :: "string \<Rightarrow> json \<Rightarrow> (string \<times> json) list \<Rightarrow> (string \<times> json) list" where
  "update_key k v [] = [(k, v)]"
| "update_key k v (kv # kvs) = (if fst kv = k then (k, v) # kvs else kv # update_key k v kvs)"

fun setitem :: "json \<Rightarrow> string \<Rightarrow> json \<Rightarrow> json" where
  "setitem (JObj kvs) k v = JObj (update_key k v kvs)"
| "setitem j k v = j"

text \<open>\<^verbatim>\<open>v[:10]\<close>.\<close>

fun slice10 :: "json \<Rightarrow> exn + json" where
  "slice10 (JStr s) = Inr (JStr (take 10 s))"
| "slice10 (JArr xs) = Inr (JArr (take 10 xs))"
| "slice10 _ = Inl TypeError"

text \<open>
  \<^verbatim>\<open>
    lecture_date = None
    if "startTimeUTC" in item["lesson"]:
        if item["lesson"]["startTimeUTC"] is not None:
            lecture_date = item["lesson"]["startTimeUTC"][:10]  # Get YYYY-MM-DD part
    if not lecture_date and "createdAt" in item["lesson"]["lesson"]:
        lecture_date = item["lesson"]["lesson"]["createdAt"][:10]
    if not lecture_date:
        lecture_date = "1970-01-01"
  \<close>
\<close>

definition lecture_date_of :: "json \<Rightarrow> exn + json" where
  "lecture_date_of item =
     (case getitem item ''lesson'' of
        Inl e \<Rightarrow> Inl e
      | Inr lesson \<Rightarrow>
     (case contains lesson ''startTimeUTC'' of
        Inl e \<Rightarrow> Inl e
      | Inr has_start \<Rightarrow>
     (case (if has_start then getitem lesson ''startTimeUTC'' else Inr JNull) of
        Inl e \<Rightarrow> Inl e
      | Inr start \<Rightarrow>
     (case (if has_start \<and> start \<noteq> JNull then slice10 start else Inr JNull) of
        Inl e \<Rightarrow> Inl e
      | Inr date1 \<Rightarrow>
     (case (if \<not> truthy date1 then
              (case getitem lesson ''lesson'' of
                 Inl e \<Rightarrow> Inl e
               | Inr inner \<Rightarrow>
              (case contains inner ''createdAt'' of
                 Inl e \<Rightarrow> Inl e
               | Inr has_created \<Rightarrow>
                   if has_created then
                     (case getitem inner ''createdAt'' of
                        Inl e \<Rightarrow> Inl e
                      | Inr created \<Rightarrow> slice10 created)
                   else Inr date1))
            else Inr date1) of
        Inl e \<Rightarrow> Inl e
      | Inr date2 \<Rightarrow>
          if \<not> truthy date2 then Inr (JStr ''1970-01-01'') else Inr date2)))))"

text \<open>
  The \<^verbatim>\<open>try\<close> block that processes the transcript of one lecture (\<^verbatim>\<open>course.py\<close>, from
  \<^verbatim>\<open># Get the media ID\<close> to the \<^verbatim>\<open>except\<close>). It ends normally, with \<^verbatim>\<open>continue\<close>, or
  with an exception; what it changed before remains changed.
  \<^verbatim>\<open>
    if media_id is not None:
        lecture_name = strip_illegal_path(item["lesson"]["lesson"]["name"])
        <lecture_date>
        # Skip if we've already processed a lecture on this date
        if lecture_date in self._processed_lecture_dates:
            self._processed_lectures += 1
            self._update_progress()
            continue
        self._processed_lecture_dates.add(lecture_date)
        filename = f"{lecture_date}_{lecture_name}"
        course_dir = os.path.join("default_out_path", self._course_name)
        dirty_dir = os.path.join(course_dir, "dirty")
        clean_dir = os.path.join(course_dir, "clean")
        dirty_path = os.path.join(dirty_dir, f"{filename}.vtt")
        clean_path = os.path.join(clean_dir, f"{filename}.txt")
        if not os.path.exists(clean_path):
            vtt_url = f"{self.hostname}/api/ui/echoplayer/lessons/{item['lesson']['lesson']['id']}/medias/{media_id}/transcript-file?format=vtt"
            response = session.get(vtt_url)
            if response.status_code == 200:
                with open(dirty_path, "wb") as f:
                    f.write(response.content)
                output_path = convert_vtt_to_text(dirty_path, clean_dir)
  \<close>
  \<^verbatim>\<open>convert_vtt_to_text\<close> of \<^verbatim>\<open>vtt_to_text.py\<close> writes
  \<^verbatim>\<open>os.path.join(output_dir, os.path.splitext(os.path.basename(vtt_path))[0] + '.txt')\<close>.
  A lecture date that is a list cannot be looked up in a set (\<^verbatim>\<open>TypeError\<close>).
\<close>

datatype flow = Normal | Continue | Raised exn

text \<open>
  First the part of the block that follows the test for a date seen before, from
  \<^verbatim>\<open>self._processed_lecture_dates.add(lecture_date)\<close> on.
\<close>

definition fetch_transcript ::
  "env \<Rightarrow> string \<Rightarrow> string \<Rightarrow> json \<Rightarrow> json \<Rightarrow> string \<Rightarrow> string \<Rightarrow> course \<Rightarrow> world
   \<Rightarrow> flow \<times> course \<times> world" where
  "fetch_transcript ev hostname course_name item media_id lecture_name lecture_date c w =
     (let c1 = c\<lparr>processed_lecture_dates :=
                    insert lecture_date (processed_lecture_dates c),
                  filename_bound := True\<rparr>;
          filename = lecture_date @ ''_'' @ lecture_name;
          course_dir = path_join ''default_out_path'' course_name;
          dirty_dir = path_join course_dir ''dirty'';
          clean_dir = path_join course_dir ''clean'';
          dirty_path = path_join dirty_dir (filename @ ''.vtt'');
          clean_path = path_join clean_dir (filename @ ''.txt'')
      in if \<not> exists w clean_path then
           (case getpath item [''lesson'', ''lesson'', ''id''] of
              Inl e \<Rightarrow> (Raised e, c1, w)
            | Inr ident \<Rightarrow>
                (let vtt_url = transcript_url hostname (py_str ev ident) (py_str ev media_id);
                     response = session_get ev vtt_url;
                     w1 = log_request (GET vtt_url) w
                 in if status_code response = 200 then
                      (let w2 = write_file dirty_path (content response) w1;
                           output_path =
                             path_join clean_dir
                               (splitext_root (basename dirty_path) @ ''.txt'');
                           w3 = write_file output_path (clean_text ev (content response)) w2
                       in (Normal, c1, w3))
                    else (Normal, c1, w1)))
         else (Normal, c1, w))"

definition process_transcript ::
  "env \<Rightarrow> string \<Rightarrow> string \<Rightarrow> json \<Rightarrow> course \<Rightarrow> world \<Rightarrow> flow \<times> course \<times> world" where
  "process_transcript ev hostname course_name item c w =
     (case lesson_media_id item of
        Inl e \<Rightarrow> (Raised e, c, w)
      | Inr media_id \<Rightarrow>
          if media_id = JNull then (Normal, c, w)
          else
     (case getpath item [''lesson'', ''lesson'', ''name''] of
        Inl e \<Rightarrow> (Raised e, c, w)
      | Inr (JStr name) \<Rightarrow>
          (let lecture_name = strip_illegal_path ev name in
           (case lecture_date_of item of
              Inl e \<Rightarrow> (Raised e, c, w)
            | Inr (JStr lecture_date) \<Rightarrow>
                if lecture_date \<in> processed_lecture_dates c then
                  (Continue, c\<lparr>processed_lectures := processed_lectures c + 1\<rparr>, w)
                else fetch_transcript ev hostname course_name item media_id lecture_name
                       lecture_date c w
            | Inr _ \<Rightarrow> (Raised TypeError, c, w)))
      | Inr _ \<Rightarrow> (Raised TypeError, c, w)))"

text \<open>
  The folder branch of the loop body:
  \<^verbatim>\<open>
    elif "groupInfo" in item and not found_future_lecture:
        folder_name = strip_illegal_path(item["groupInfo"]["name"])
        if folder_name.lower() not in ['home', 'echo360', self._course_name.lower()]:
            new_path = os.path.join(path, folder_name) if path else folder_name
            queue.append((item["lessons"], new_path))
        else:
            queue.append((item["lessons"], path))
  \<close>
\<close>

definition enqueue_folder ::
  "env \<Rightarrow> string \<Rightarrow> string \<Rightarrow> json \<Rightarrow> course \<Rightarrow> exn option \<times> course" where
  "enqueue_folder ev course_name folder item c =
     (case getpath item [''groupInfo'', ''name''] of
        Inl e \<Rightarrow> (Some e, c)
      | Inr (JStr name) \<Rightarrow>
          (let folder_name = strip_illegal_path ev name;
               new_path =
                 (if lower folder_name \<notin> set [''home'', ''echo360'', lower course_name]
                  then (if folder \<noteq> [] then path_join folder folder_name else folder_name)
                  else folder)
           in (case getitem item ''lessons'' of
                 Inl e \<Rightarrow> (Some e, c)
               | Inr lessons \<Rightarrow> (None, c\<lparr>queue := queue c @ [(lessons, new_path)]\<rparr>)))
      | Inr _ \<Rightarrow> (Some TypeError, c))"

text \<open>
  The body of \<^verbatim>\<open>for item in items:\<close>. The second component of the result says whether
  the loop is left with \<^verbatim>\<open>break\<close>.
  \<^verbatim>\<open>
    if not isinstance(item, dict):
        continue
    if "lesson" in item["type"].lower():
        video_url = "{}/lesson/{}/classroom".format(self.hostname, item["lesson"]["lesson"]["id"])
        self._driver.get(video_url)
        if "Looks like no content has been added to this class yet" in self._driver.page_source:
            remaining_to_skip = self._lecture_count - (self._processed_lectures + self._skipped_lectures)
            self._skipped_lectures += remaining_to_skip
            found_future_lecture = True
            break
        item["path_prefix"] = path
        processed_videos.append(item)
        try:
            <transcript>
        except Exception as e:
            print(f"\n>> Error processing transcript for {filename}: {str(e)}")
        self._processed_lectures += 1
    elif "groupInfo" in item and not found_future_lecture:
        <folder>
  \<close>
\<close>

definition process_item ::
  "env \<Rightarrow> string \<Rightarrow> string \<Rightarrow> string \<Rightarrow> json \<Rightarrow> course \<Rightarrow> world
   \<Rightarrow> exn option \<times> bool \<times> course \<times> world" where
  "process_item ev hostname course_name folder item c w =
     (case item of
        JObj kvs \<Rightarrow>
          (case getitem item ''type'' of
             Inl e \<Rightarrow> (Some e, False, c, w)
           | Inr (JStr t) \<Rightarrow>
               if is_substring ''lesson'' (lower t) then
                 (case getpath item [''lesson'', ''lesson'', ''id''] of
                    Inl e \<Rightarrow> (Some e, False, c, w)
                  | Inr ident \<Rightarrow>
                      (let video_url = classroom_url hostname (py_str ev ident);
                           w1 = w\<lparr>visited := visited w @ [video_url]\<rparr>
                       in if no_content ev video_url then
                            (let remaining_to_skip =
                                   lecture_count c - (processed_lectures c + skipped_lectures c)
                             in (None, True,
                                 c\<lparr>skipped_lectures := skipped_lectures c + remaining_to_skip,
                                   found_future_lecture := True\<rparr>, w1))
                          else
                            (let item1 = setitem item ''path_prefix'' (JStr folder);
                                 c1 = c\<lparr>processed_videos := processed_videos c @ [item1]\<rparr>
                             in (case process_transcript ev hostname course_name item1 c1 w1 of
                                   (Continue, c2, w2) \<Rightarrow> (None, False, c2, w2)
                                 | (Normal, c2, w2) \<Rightarrow>
                                     (None, False,
                                      c2\<lparr>processed_lectures := processed_lectures c2 + 1\<rparr>, w2)
                                 | (Raised e, c2, w2) \<Rightarrow>
                                     if filename_bound c2 then
                                       (None, False,
                                        c2\<lparr>processed_lectures := processed_lectures c2 + 1\<rparr>, w2)
                                     else (Some UnboundLocalError, False, c2, w2)))))
               else
                 (case contains item ''groupInfo'' of
                    Inl e \<Rightarrow> (Some e, False, c, w)
                  | Inr has_group \<Rightarrow>
                      if has_group \<and> \<not> found_future_lecture c then
                        (case enqueue_folder ev course_name folder item c of
                           (r, c1) \<Rightarrow> (r, False, c1, w))
                      else (None, False, c, w))
           | Inr _ \<Rightarrow> (Some AttributeError, False, c, w))
      | _ \<Rightarrow> (None, False, c, w))"

fun for_items ::
  "env \<Rightarrow> string \<Rightarrow> string \<Rightarrow> string \<Rightarrow> json list \<Rightarrow> course \<Rightarrow> world
   \<Rightarrow> exn option \<times> course \<times> world" where
  "for_items ev hostname course_name folder [] c w = (None, c, w)"
| "for_items ev hostname course_name folder (item # rest) c w =
     (case process_item ev hostname course_name folder item c w of
        (Some e, brk, c1, w1) \<Rightarrow> (Some e, c1, w1)
      | (None, brk, c1, w1) \<Rightarrow>
          if brk then (None, c1, w1)
          else for_items ev hostname course_name folder rest c1 w1)"

text \<open>
  The outer loop pops the first entry of the queue and runs the inner loop on it:
  \<^verbatim>\<open>
    while queue and not found_future_lecture:
        items, path = queue.pop(0)
        for item in items:
            ...
  \<close>
  Every entry that the inner loop appends is the \<^verbatim>\<open>"lessons"\<close> value of one of the
  items, so the total size of the queued metadata decreases: the loop ends.
\<close>

definition queue_size :: "(json \<times> string) list \<Rightarrow> nat" where
  "queue_size q = sum_list (map (\<lambda>entry. Suc (size (fst entry))) q)"

lemma size_map_of: "map_of kvs k = Some v \<Longrightarrow> size v < size (JObj kvs)"
  by (induction kvs) (auto split: if_splits)

lemma size_getitem: "getitem j k = Inr v \<Longrightarrow> size v < size j"
  by (cases j) (auto split: option.splits dest: size_map_of)

lemma enqueue_folder_size:
  "enqueue_folder ev course_name folder item c = (r, c1) \<Longrightarrow>
   queue_size (queue c1) \<le> queue_size (queue c) + size item"
  by (auto simp: enqueue_folder_def queue_size_def Let_def
      split: sum.splits json.splits dest!: size_getitem)

lemma fetch_transcript_queue:
  "fetch_transcript ev hostname course_name item media_id lecture_name lecture_date c w
     = (f, c1, w1) \<Longrightarrow> queue c1 = queue c"
  by (auto simp: fetch_transcript_def Let_def split: sum.splits if_splits)

lemma process_transcript_queue:
  "process_transcript ev hostname course_name item c w = (f, c1, w1) \<Longrightarrow> queue c1 = queue c"
  by (auto simp: process_transcript_def Let_def split: sum.splits json.splits if_splits
      dest: fetch_transcript_queue)

lemma process_item_size:
  "process_item ev hostname course_name folder item c w = (r, brk, c1, w1) \<Longrightarrow>
   queue_size (queue c1) \<le> queue_size (queue c) + size item"
  by (auto simp: process_item_def Let_def
      split: sum.splits json.splits if_splits prod.splits flow.splits
      dest: enqueue_folder_size process_transcript_queue)

lemma for_items_size:
  "for_items ev hostname course_name folder items c w = (r, c1, w1) \<Longrightarrow>
   queue_size (queue c1) \<le> queue_size (queue c) + sum_list (map size items)"
proof (induction items arbitrary: c w)
  case Nil
  then show ?case by simp
next
  case (Cons item rest)
  obtain r0 brk c0 w0
    where p: "process_item ev hostname course_name folder item c w = (r0, brk, c0, w0)"
    by (metis prod_cases4)
  have s0: "queue_size (queue c0) \<le> queue_size (queue c) + size item"
    using p by (rule process_item_size)
  show ?case
  proof (cases "r0 = None \<and> \<not> brk")
    case True
    then have "for_items ev hostname course_name folder rest c0 w0 = (r, c1, w1)"
      using Cons.prems p by simp
    then have "queue_size (queue c1) \<le> queue_size (queue c0) + sum_list (map size rest)"
      by (rule Cons.IH)
    then show ?thesis using s0 by simp
  next
    case False
    then have "c1 = c0" using Cons.prems p by (auto split: option.splits if_splits)
    then show ?thesis using s0 by simp
  qed
qed

lemma sum_list_le_size_list: "sum_list (map f xs) \<le> size_list f xs"
  by (induction xs) auto

lemma sum_list_map_const0: "sum_list (map (\<lambda>x. 0::nat) xs) = 0"
  by (induction xs) auto

lemma size_iterate: "iterate items = Inr xs \<Longrightarrow> sum_list (map size xs) \<le> size items"
proof (cases items)
  case (JArr ys)
  assume "iterate items = Inr xs"
  with JArr have "xs = ys" by simp
  then show ?thesis using JArr sum_list_le_size_list [of size ys] by simp
qed (auto simp: comp_def sum_list_map_const0)

function traverse ::
  "env \<Rightarrow> string \<Rightarrow> string \<Rightarrow> course \<Rightarrow> world \<Rightarrow> exn option \<times> course \<times> world" where
  "traverse ev hostname course_name c w =
     (case queue c of
        [] \<Rightarrow> (None, c, w)
      | entry # rest \<Rightarrow>
          if found_future_lecture c then (None, c, w)
          else
            (case iterate (fst entry) of
               Inl e \<Rightarrow> (Some e, c\<lparr>queue := rest\<rparr>, w)
             | Inr items \<Rightarrow>
                 (case for_items ev hostname course_name (snd entry) items
                         (c\<lparr>queue := rest\<rparr>) w of
                    (Some e, c1, w1) \<Rightarrow> (Some e, c1, w1)
                  | (None, c1, w1) \<Rightarrow> traverse ev hostname course_name c1 w1)))"
  by pat_completeness auto
termination
proof (relation "measure (\<lambda>(ev, hostname, course_name, c, w). queue_size (queue c))")
  show "wf (measure (\<lambda>(ev, hostname, course_name, c, w). queue_size (queue c)))" by simp
next
  fix ev :: env and hostname course_name :: string and c :: course and w :: world
    and entry rest items x y c1 w1
  assume q: "queue c = entry # rest" and it: "iterate (fst entry) = Inr items"
    and f: "(x, y) = for_items ev hostname course_name (snd entry) items (c\<lparr>queue := rest\<rparr>) w"
    and y: "(c1, w1) = y"
  from f y
  have "for_items ev hostname course_name (snd entry) items (c\<lparr>queue := rest\<rparr>) w = (x, c1, w1)"
    by simp
  then have "queue_size (queue c1) \<le> queue_size rest + sum_list (map size items)"
    using for_items_size by fastforce
  also have "\<dots> \<le> queue_size rest + size (fst entry)"
    using size_iterate [OF it] by simp
  also have "\<dots> < queue_size (queue c)"
    using q by (simp add: queue_size_def)
  finally show "((ev, hostname, course_name, c1, w1), (ev, hostname, course_name, c, w))
        \<in> measure (\<lambda>(ev, hostname, course_name, c, w). queue_size (queue c))"
    by simp
qed

declare traverse.simps [simp del]

text \<open>
  The single pass of \<^verbatim>\<open>get_videos\<close> over the course data \<^verbatim>\<open>videos_json\<close>:
  \<^verbatim>\<open>
    processed_videos = []
    queue = [(videos_json, "")]  # Start with root items
    found_future_lecture = False
  \<close>
\<close>

definition get_videos_pass ::
  "env \<Rightarrow> string \<Rightarrow> string \<Rightarrow> json \<Rightarrow> course \<Rightarrow> world \<Rightarrow> exn option \<times> course \<times> world" where
  "get_videos_pass ev hostname course_name videos_json c w =
     traverse ev hostname course_name
       (c\<lparr>processed_videos := [], queue := [(videos_json, [])],
          found_future_lecture := False, filename_bound := False\<rparr>) w"

section \<open>Concrete inputs\<close>

text \<open>The page of the specification's example: three direct-file URLs.\<close>

definition example_findall :: "string \<Rightarrow> nat \<Rightarrow> string list attempt" where
  "example_findall suffix i =
     TryReturned [''https://h/a.sd1.mp4'', ''https://h/a.hd2.mp4'', ''https://h/a.hd1.mp4'']"

text \<open>
  A page that times out four times and is stale twice before it times out a fifth time.
\<close>

definition flaky_page :: "nat \<Rightarrow> json attempt" where
  "flaky_page j =
     (if j < 6 then
        [TryRaised TimeoutException, TryRaised StaleElementReferenceException,
         TryRaised TimeoutException, TryRaised TimeoutException,
         TryRaised StaleElementReferenceException, TryRaised TimeoutException] ! j
      else TryRaised TimeoutException)"

text \<open>
  A small stand-in for \<^verbatim>\<open>urlparse\<close> on URLs of the form \<^verbatim>\<open>scheme://host/path\<close>.
\<close>

fun split_scheme :: "string \<Rightarrow> string \<Rightarrow> string \<times> string" where
  "split_scheme acc [] = ([], rev acc)"
| "split_scheme acc (c # cs) =
     (if take 3 (c # cs) = ''://'' then (rev acc, drop 3 (c # cs))
      else split_scheme (c # acc) cs)"

definition example_urlparse :: "json \<Rightarrow> exn + parse_result" where
  "example_urlparse v =
     (case v of
        JStr s \<Rightarrow>
          (let (sch, rest) = split_scheme [] s
           in Inr \<lparr>scheme = sch,
                   netloc = takeWhile (\<lambda>c. c \<noteq> CHR ''/'') rest,
                   path = dropWhile (\<lambda>c. c \<noteq> CHR ''/'') rest\<rparr>)
      | _ \<Rightarrow> Inl TypeError)"

text \<open>
  Lecture metadata with one embedded manifest and the given list of direct files.
\<close>

definition lecture_json :: "json list \<Rightarrow> json" where
  "lecture_json primary_files =
     JObj [(''lesson'', JObj
        [(''hasVideo'', JBool True), (''hasAvailableVideo'', JBool True),
         (''video'', JObj [(''media'', JObj [(''media'', JObj
            [(''current'', JObj [(''primaryFiles'', JArr primary_files)]),
             (''versions'', JArr [JObj [(''manifests'',
                JArr [JObj [(''uri'', JStr ''https://offload.example/x/s1_av.m3u8'')]])]])])])])])]"

definition both_json :: json where
  "both_json = lecture_json [JObj [(''s3Url'', JStr ''https://s3/a_sd.mp4'')],
                             JObj [(''s3Url'', JStr ''https://s3/a_hd.mp4'')]]"

definition manifest_only_json :: json where
  "manifest_only_json = lecture_json []"

text \<open>
  A date parser that keeps the first ten characters of a time stamp, a formatter, and an
  environment in which every request is answered and the mux tool is not installed.
\<close>

definition example_parse_date :: "json \<Rightarrow> string option" where
  "example_parse_date v =
     (case v of JStr s \<Rightarrow> if length s \<ge> 10 then Some (take 10 s) else None | _ \<Rightarrow> None)"

definition example_str :: "json \<Rightarrow> string" where
  "example_str v = (case v of JStr s \<Rightarrow> s | _ \<Rightarrow> ''None'')"

definition example_env :: env where
  "example_env =
     \<lparr>strip_illegal_path = (\<lambda>s. s),
      py_str = example_str,
      lib_parse_date = example_parse_date,
      lib_urlparse = example_urlparse,
      lib_set_iter = sorted_list_of_set,
      page_findall = (\<lambda>video_url. example_findall),
      player_src = (\<lambda>video_url i. TryReturned (JStr ''https://h/a.m3u8'')),
      no_content = (\<lambda>video_url. False),
      session_get = (\<lambda>u. \<lparr>status_code = 200, content = ''WEBVTT''\<rparr>),
      requests_get = (\<lambda>u. \<lparr>status_code = 200, content = ''WEBVTT''\<rparr>),
      m3u8_parse = (\<lambda>lines. Inr (Some ''video.m3u8'', Some ''audio.m3u8'')),
      urljoin = (\<lambda>base rel. dirname base @ ''/'' @ rel),
      hls_download = (\<lambda>u output_dir. (path_join output_dir (basename u @ ''.ts''), ''data'')),
      ffmpeg = (\<lambda>inputs. FFExecutableNotFoundError),
      vtt_text = (\<lambda>s. s),
      clean_text = (\<lambda>s. s)\<rparr>"

definition multipart_json :: json where
  "multipart_json =
     JObj [(''groupInfo'', JObj [(''name'', JStr ''Week 1''), (''createdAt'', JNull),
                                 (''updatedAt'', JStr ''2024-03-05T10:00:00Z'')]),
           (''lessons'', JArr []), (''path_prefix'', JStr [])]"

definition lesson_json :: "string \<Rightarrow> string \<Rightarrow> string \<Rightarrow> json" where
  "lesson_json ident name start =
     JObj [(''type'', JStr ''SyllabusLessonType''),
           (''lesson'', JObj [(''lesson'', JObj [(''id'', JStr ident), (''name'', JStr name)]),
                              (''startTimeUTC'', JStr start),
                              (''medias'', JArr [JObj [(''mediaType'', JStr ''Video''),
                                                       (''id'', JStr (''m-'' @ ident))]])]),
           (''path_prefix'', JStr [])]"

definition legacy_json :: "string \<Rightarrow> string \<Rightarrow> json" where
  "legacy_json title start =
     JObj [(''richMedia'', JStr ''https://h/rich''), (''startTime'', JStr start),
           (''title'', JStr title)]"

definition cloud_course_json :: json where
  "cloud_course_json =
     JArr [lesson_json ''L2'' ''Second'' ''2024-03-05T10:00:00Z'',
           JStr ''not a dictionary'',
           lesson_json ''L1'' ''First'' ''2024-03-01T09:00:00Z'']"

definition legacy_course_json :: json where
  "legacy_course_json =
     JArr [legacy_json ''Second'' ''2024-03-05T10:00:00Z'',
           legacy_json ''First'' ''2024-03-01T09:00:00Z'']"

text \<open>
  A lecture object of the cloud platform, a destination directory that already holds the
  final file of that lecture, an empty one, and a resolution result with two feeds.
\<close>

definition lesson_video :: "bool \<Rightarrow> bool \<Rightarrow> json \<Rightarrow> EchoCloudVideo" where
  "lesson_video subtitles alternative_feeds resolved =
     \<lparr>self_url = resolved, self_date = ''2024-03-05'', self_title = JStr ''Second'',
      self_hostname = ''https://echo360.org'', self_path_prefix = JStr [],
      self_video_json = lesson_json ''L2'' ''Second'' ''2024-03-05T10:00:00Z'',
      self_is_multipart_video = False,
      self_download_alternative_feeds = alternative_feeds,
      self_download_subtitles = subtitles,
      self_course_name = ''Course'', self_video_id = ''L2''\<rparr>"

definition world_with_mp4 :: world where
  "world_with_mp4 =
     \<lparr>files = [''out/Course/dirty/Second.mp4'' \<mapsto> ''old''],
      requests = [], mux_runs = [], visited = []\<rparr>"

definition empty_world :: world where
  "empty_world = \<lparr>files = Map.empty, requests = [], mux_runs = [], visited = []\<rparr>"

definition two_feeds :: json where
  "two_feeds = JArr [JStr ''https://h/a.hd1.mp4'', JStr ''https://h/a.hd2.mp4'']"

text \<open>
  A course object before the traversal, one after a first lecture on 5 March 2024, and
  course data with two lectures (three lectures) of which two are on the same day.
\<close>

definition course_start :: course where
  "course_start =
     \<lparr>lecture_count = 3, processed_lectures = 0, skipped_lectures = 0,
      processed_lecture_dates = {}, processed_videos = [], queue = [],
      found_future_lecture = False, filename_bound = False\<rparr>"

definition same_day_json :: json where
  "same_day_json =
     JArr [lesson_json ''L1'' ''First'' ''2024-03-05T09:00:00Z'',
           lesson_json ''L2'' ''Second'' ''2024-03-05T14:00:00Z'',
           lesson_json ''L3'' ''Third'' ''2024-03-06T09:00:00Z'']"

definition two_same_day_json :: json where
  "two_same_day_json =
     JArr [lesson_json ''L1'' ''First'' ''2024-03-05T09:00:00Z'',
           lesson_json ''L2'' ''Second'' ''2024-03-05T14:00:00Z'']"

definition course_after_first :: course where
  "course_after_first = course_start\<lparr>processed_lectures := 1,
      processed_lecture_dates := {''2024-03-05''}\<rparr>"


section \<open>Properties of the retry loop\<close>

text \<open>
  How often each of the two retried exceptions was met in the passes \<open>i, \<dots>, i + n - 1\<close>,
  and whether these passes met nothing else.
\<close>

definition count_raised :: "exn \<Rightarrow> (nat \<Rightarrow> 'a attempt) \<Rightarrow> nat \<Rightarrow> nat \<Rightarrow> int" where
  "count_raised e page i n = int (length (filter (\<lambda>j. page j = TryRaised e) [i..<i + n]))"

definition only_retryable :: "(nat \<Rightarrow> 'a attempt) \<Rightarrow> nat \<Rightarrow> nat \<Rightarrow> bool" where
  "only_retryable page i n =
     (\<forall>j \<in> set [i..<i + n]. page j = TryRaised TimeoutException
                          \<or> page j = TryRaised StaleElementReferenceException)"

lemma upt_front: "[i..<i + Suc n] = i # [Suc i..<Suc i + n]"
  by (simp add: upt_conv_Cons)

lemma count_raised_0 [simp]: "count_raised e page i 0 = 0"
  by (simp add: count_raised_def)

lemma count_raised_Suc:
  "count_raised e page i (Suc n) =
     (if page i = TryRaised e then 1 else 0) + count_raised e page (Suc i) n"
  unfolding count_raised_def upt_front by simp

lemma only_retryable_Suc:
  "only_retryable page i (Suc n) =
     ((page i = TryRaised TimeoutException \<or> page i = TryRaised StaleElementReferenceException)
      \<and> only_retryable page (Suc i) n)"
  unfolding only_retryable_def upt_front by simp

lemma count_raised_nonneg: "0 \<le> count_raised e page i n"
  by (simp add: count_raised_def)

lemma retry_loop_TryReturned: "page i = TryReturned v \<Longrightarrow> retry_loop m page i s r = Inr v"
  by (subst retry_loop.simps) simp

lemma retry_loop_GetRaised: "page i = GetRaised e \<Longrightarrow> retry_loop m page i s r = Inl e"
  by (subst retry_loop.simps) simp

lemma retry_loop_Timeout:
  "page i = TryRaised TimeoutException \<Longrightarrow>
   retry_loop m page i s r =
     (if r \<ge> m then Inl TimeoutException else retry_loop m page (i + 1) s (r + 1))"
  by (subst retry_loop.simps) simp

lemma retry_loop_Stale:
  "page i = TryRaised StaleElementReferenceException \<Longrightarrow>
   retry_loop m page i s r =
     (if s \<ge> m then Inl StaleElementReferenceException
      else retry_loop m page (i + 1) (s + 1) r)"
  by (subst retry_loop.simps) simp

text \<open>
  As long as only retried exceptions are met and neither counter has reached the bound,
  the loop goes on, and each counter has grown by the number of its own exceptions.
\<close>

lemma retry_loop_run:
  assumes "only_retryable page i n"
    and "r + count_raised TimeoutException page i n \<le> m"
    and "s + count_raised StaleElementReferenceException page i n \<le> m"
  shows "retry_loop m page i s r =
           retry_loop m page (i + n) (s + count_raised StaleElementReferenceException page i n)
                                     (r + count_raised TimeoutException page i n)"
  using assms
proof (induction n arbitrary: i s r)
  case 0
  then show ?case by simp
next
  case (Suc n)
  from Suc.prems(1) have rest: "only_retryable page (Suc i) n"
    and here: "page i = TryRaised TimeoutException
               \<or> page i = TryRaised StaleElementReferenceException"
    by (simp_all add: only_retryable_Suc)
  from here show ?case
  proof
    assume t: "page i = TryRaised TimeoutException"
    have cT: "count_raised TimeoutException page i (Suc n)
                = 1 + count_raised TimeoutException page (Suc i) n"
      and cS: "count_raised StaleElementReferenceException page i (Suc n)
                = count_raised StaleElementReferenceException page (Suc i) n"
      using t by (simp_all add: count_raised_Suc)
    have "r < m"
      using Suc.prems(2) cT count_raised_nonneg [of TimeoutException page "Suc i" n]
      by linarith
    then have "retry_loop m page i s r = retry_loop m page (Suc i) s (r + 1)"
      using t by (simp add: retry_loop_Timeout)
    also have "\<dots> = retry_loop m page (Suc i + n)
        (s + count_raised StaleElementReferenceException page (Suc i) n)
        (r + 1 + count_raised TimeoutException page (Suc i) n)"
      using rest Suc.prems(2,3) cT cS by (intro Suc.IH) simp_all
    finally show ?thesis by (simp add: cT cS add.assoc)
  next
    assume t: "page i = TryRaised StaleElementReferenceException"
    have cS: "count_raised StaleElementReferenceException page i (Suc n)
                = 1 + count_raised StaleElementReferenceException page (Suc i) n"
      and cT: "count_raised TimeoutException page i (Suc n)
                = count_raised TimeoutException page (Suc i) n"
      using t by (simp_all add: count_raised_Suc)
    have "s < m"
      using Suc.prems(3) cS
        count_raised_nonneg [of StaleElementReferenceException page "Suc i" n]
      by linarith
    then have "retry_loop m page i s r = retry_loop m page (Suc i) (s + 1) r"
      using t by (simp add: retry_loop_Stale)
    also have "\<dots> = retry_loop m page (Suc i + n)
        (s + 1 + count_raised StaleElementReferenceException page (Suc i) n)
        (r + count_raised TimeoutException page (Suc i) n)"
      using rest Suc.prems(2,3) cT cS by (intro Suc.IH) simp_all
    finally show ?thesis by (simp add: cT cS add.assoc)
  qed
qed

text \<open>
  Claim C7. Both retry loops start with \<open>stale_attempt = 1\<close> and \<open>refresh_attempt = 1\<close>
  (\<open>EchoVideo_loop_find_m3u8_url\<close> and \<open>brute_force_get_url\<close> are \<open>retry_loop\<close> from pass 0
  with both counters at 1). Let the first \<open>n\<close> passes meet only time-outs (\<open>t\<close> of them) and
  stale elements (\<open>s\<close> of them), each kind fewer than \<open>max_attempts\<close> times. Then the loop
  reaches pass \<open>n\<close>, and there:
  \<^item> a time-out is raised to the caller exactly if the time-out counter \<open>1 + t\<close> has reached
    \<open>max_attempts\<close>, whatever the stale counter is; otherwise the loop goes on with the
    time-out counter increased and the stale counter unchanged;
  \<^item> a stale element is raised to the caller exactly if the stale counter \<open>1 + s\<close> has reached
    \<open>max_attempts\<close>, whatever the time-out counter is; otherwise the loop goes on with the
    stale counter increased and the time-out counter unchanged;
  \<^item> a returned value is the result.
  The loop is total (its termination is proved with the definition).
\<close>

theorem retry_counters_independent_and_bounded:
  assumes "only_retryable page 0 n"
    and "t = count_raised TimeoutException page 0 n"
    and "s = count_raised StaleElementReferenceException page 0 n"
    and "1 + t \<le> max_attempts" and "1 + s \<le> max_attempts"
  shows "(page n = TryRaised TimeoutException \<longrightarrow>
            retry_loop max_attempts page 0 1 1 =
              (if 1 + t \<ge> max_attempts then Inl TimeoutException
               else retry_loop max_attempts page (n + 1) (1 + s) (1 + t + 1)))
       \<and> (page n = TryRaised StaleElementReferenceException \<longrightarrow>
            retry_loop max_attempts page 0 1 1 =
              (if 1 + s \<ge> max_attempts then Inl StaleElementReferenceException
               else retry_loop max_attempts page (n + 1) (1 + s + 1) (1 + t)))
       \<and> (\<forall>v. page n = TryReturned v \<longrightarrow> retry_loop max_attempts page 0 1 1 = Inr v)"
proof -
  have run: "retry_loop max_attempts page 0 1 1 = retry_loop max_attempts page n (1 + s) (1 + t)"
    using retry_loop_run [of page 0 n 1 max_attempts 1] assms by simp
  show ?thesis
    unfolding run
    by (auto simp: retry_loop_Timeout retry_loop_Stale retry_loop_TryReturned)
qed

lemma flaky_page_retryable: "only_retryable flaky_page 0 6"
  by code_simp

lemma flaky_page_timeouts: "count_raised TimeoutException flaky_page 0 6 = 4"
  by code_simp

lemma flaky_page_stales: "count_raised StaleElementReferenceException flaky_page 0 6 = 2"
  by code_simp

theorem retry_counters_witness:
  "only_retryable flaky_page 0 6
   \<and> count_raised TimeoutException flaky_page 0 6 = 4
   \<and> count_raised StaleElementReferenceException flaky_page 0 6 = 2
   \<and> flaky_page 6 = TryRaised TimeoutException
   \<and> EchoVideo_loop_find_m3u8_url 5 flaky_page = Inl TimeoutException"
proof -
  have last: "flaky_page 6 = TryRaised TimeoutException" by (simp add: flaky_page_def)
  have "retry_loop 5 flaky_page 0 1 1 = Inl TimeoutException"
    using retry_counters_independent_and_bounded [OF flaky_page_retryable
        flaky_page_timeouts [symmetric] flaky_page_stales [symmetric], of 5] last
    by simp
  then show ?thesis
    using flaky_page_retryable flaky_page_timeouts flaky_page_stales last
    by (simp add: EchoVideo_loop_find_m3u8_url_def)
qed

section \<open>Properties of the resolution strategies\<close>

lemma brute_force_get_url_finite:
  "brute_force_get_url m findall suffix = Inr urls \<Longrightarrow> finite urls"
  by (auto simp: brute_force_get_url_def split: sum.splits)

lemma take_sorted_distinct_below:
  fixes xs :: "'a::linorder list"
  assumes "sorted xs" "distinct xs" "u \<in> set (take n xs)" "v \<in> set xs - set (take n xs)"
  shows "u < v"
proof -
  from assms(4) have v: "v \<in> set (drop n xs)"
    by (metis DiffE Un_iff append_take_drop_id set_append)
  from assms(1) have "sorted (take n xs @ drop n xs)" by simp
  then have "u \<le> v" using assms(3) v unfolding sorted_append by blast
  moreover have "u \<noteq> v" using assms(3,4) by auto
  ultimately show ?thesis by simp
qed

lemma example_findall_urls:
  "brute_force_get_url 5 example_findall ''mp4'' =
     Inr (set [''https://h/a.sd1.mp4'', ''https://h/a.hd2.mp4'', ''https://h/a.hd1.mp4''])"
  by (simp add: brute_force_get_url_def retry_loop_TryReturned example_findall_def)

lemma example_findall_mp4:
  "brute_force_get_mp4_url 5 example_findall = Inr [''https://h/a.hd1.mp4'', ''https://h/a.hd2.mp4'']"
  unfolding brute_force_get_mp4_url_def example_findall_urls
  by (simp add: sorted_list_of_set_sort_remdups del: set_simps) simp

text \<open>
  Claim C1, as the program has it. \<^verbatim>\<open>sorted(urls)[:2]\<close> is ascending: the page-scan file
  strategy returns the (at most two) least URLs of the set in ascending order, every URL
  that is left out is greater than every URL returned, and the first element (the only one
  kept when alternative feeds are off) is the least URL of the page. The source says why:
  "Let's prioritise hd over sd, and 1 over 2 [...] which happens to be the natual order of
  letter anyway, so we can simply use sorted".
\<close>

theorem page_scan_takes_two_least_ascending:
  assumes "brute_force_get_mp4_url max_attempts findall = Inr us"
  shows "\<exists>urls. brute_force_get_url max_attempts findall ''mp4'' = Inr urls
           \<and> sorted us \<and> distinct us \<and> set us \<subseteq> urls
           \<and> length us = min 2 (card urls)
           \<and> (\<forall>u \<in> set us. \<forall>v \<in> urls - set us. u < v)
           \<and> take 1 us = [Min urls]"
proof -
  from assms obtain urls
    where u: "brute_force_get_url max_attempts findall ''mp4'' = Inr urls"
      and ne: "card urls \<noteq> 0" and us: "us = take 2 (sorted_list_of_set urls)"
    by (auto simp: brute_force_get_mp4_url_def split: sum.splits if_splits)
  have fin: "finite urls" using u by (rule brute_force_get_url_finite)
  have nonempty: "urls \<noteq> {}" using ne by auto
  let ?xs = "sorted_list_of_set urls"
  have s: "sorted ?xs" and d: "distinct ?xs" and st: "set ?xs = urls"
    using fin by simp_all
  have xs_ne: "?xs \<noteq> []" using nonempty fin by simp
  have "sorted us" using s us by simp
  moreover have "distinct us" using d us by simp
  moreover have "set us \<subseteq> urls" using st us by (metis set_take_subset)
  moreover have "length us = min 2 (card urls)"
    using us fin by (simp add: min.commute)
  moreover have "\<forall>u \<in> set us. \<forall>v \<in> urls - set us. u < v"
    using take_sorted_distinct_below [OF s d] us st by blast
  moreover have "take 1 us = [Min urls]"
  proof -
    have "take 1 us = take 1 ?xs" using us by simp
    also have "\<dots> = [hd ?xs]" using xs_ne by (cases ?xs) simp_all
    also have "hd ?xs = Min urls"
      using xs_ne s st fin nonempty
      by (metis Min_eqI list.set_sel(1) list.exhaust_sel set_ConsD sorted_simps(2) order_refl)
    finally show ?thesis .
  qed
  ultimately show ?thesis using u by blast
qed

theorem page_scan_example_witness:
  "brute_force_get_mp4_url 5 example_findall
     = Inr [''https://h/a.hd1.mp4'', ''https://h/a.hd2.mp4'']
   \<and> (\<exists>urls. brute_force_get_url 5 example_findall ''mp4'' = Inr urls
          \<and> sorted [''https://h/a.hd1.mp4'', ''https://h/a.hd2.mp4'']
          \<and> take 1 [''https://h/a.hd1.mp4'', ''https://h/a.hd2.mp4''] = [Min urls])"
  using page_scan_takes_two_least_ascending [OF example_findall_mp4] example_findall_mp4
  by blast

text \<open>
  The example of the specification, on the program: for the three URLs found on the page
  the strategy returns \<^verbatim>\<open>a.hd1.mp4\<close> and \<^verbatim>\<open>a.hd2.mp4\<close>, not \<^verbatim>\<open>a.sd1.mp4\<close> and
  \<^verbatim>\<open>a.hd2.mp4\<close>, and the first of them is \<^verbatim>\<open>a.hd1.mp4\<close>, not \<^verbatim>\<open>a.sd1.mp4\<close>.
\<close>

theorem page_scan_descending_counterexample:
  "brute_force_get_mp4_url 5 example_findall
     \<noteq> Inr [''https://h/a.sd1.mp4'', ''https://h/a.hd2.mp4'']
   \<and> brute_force_get_mp4_url 5 example_findall
     = Inr [''https://h/a.hd1.mp4'', ''https://h/a.hd2.mp4'']"
  by (simp add: example_findall_mp4)

lemma map_exn_all_Inr:
  "\<forall>x \<in> set xs. \<exists>y. f x = Inr y \<Longrightarrow> map_exn f xs = Inr (map (\<lambda>x. projr (f x)) xs)"
  by (induction xs) auto

text \<open>
  Claim C6. If the metadata declares a non-empty list of direct files, each with its
  \<^verbatim>\<open>s3Url\<close>, then the direct-file strategy returns the \<^verbatim>\<open>s3Url\<close> of the last entry of
  the list, and that value is the result of the resolution: no other strategy is
  consulted, whatever manifests the metadata holds and whatever the page shows.
\<close>

theorem direct_file_wins:
  assumes "getpath video_json
             [''lesson'', ''video'', ''media'', ''media'', ''current'', ''primaryFiles'']
           = Inr (JArr objs)"
    and "objs \<noteq> []"
    and "\<forall>obj \<in> set objs. \<exists>u. getitem obj ''s3Url'' = Inr u"
  shows "\<exists>u. getitem (last objs) ''s3Url'' = Inr u
           \<and> from_json_mp4 video_json = Inr u
           \<and> EchoCloudVideo_loop_find_m3u8_url urlparse set_iter findall max_attempts
                hostname video_json = Inr u"
proof -
  let ?f = "\<lambda>obj. getitem obj ''s3Url''"
  have m: "map_exn ?f objs = Inr (map (\<lambda>x. projr (?f x)) objs)"
    using assms(3) by (rule map_exn_all_Inr)
  have l: "last objs \<in> set objs" using assms(2) by simp
  then obtain u where u: "?f (last objs) = Inr u" using assms(3) by blast
  have "hd (rev (map (\<lambda>x. projr (?f x)) objs)) = u"
    using assms(2) u by (simp add: hd_rev last_map)
  then have mp4: "from_json_mp4 video_json = Inr u"
    using assms(1,2) m by (simp add: from_json_mp4_def)
  then show ?thesis using u by (simp add: EchoCloudVideo_loop_find_m3u8_url_def)
qed

lemma both_json_files:
  "getpath both_json [''lesson'', ''video'', ''media'', ''media'', ''current'', ''primaryFiles'']
     = Inr (JArr [JObj [(''s3Url'', JStr ''https://s3/a_sd.mp4'')],
                  JObj [(''s3Url'', JStr ''https://s3/a_hd.mp4'')]])"
  by (simp add: both_json_def lecture_json_def)

lemma both_json_manifests:
  "from_json_m3u8 example_urlparse ''https://echo360.org'' both_json
     = Inr (JArr [JStr ''https://content.echo360.org/x/s1_av.m3u8''])"
  by (simp add: from_json_m3u8_def both_json_def lecture_json_def example_urlparse_def
      rewrite_host_def)

theorem direct_file_wins_witness:
  "from_json_m3u8 example_urlparse ''https://echo360.org'' both_json
     = Inr (JArr [JStr ''https://content.echo360.org/x/s1_av.m3u8''])
   \<and> EchoCloudVideo_loop_find_m3u8_url example_urlparse sorted_list_of_set example_findall 5
        ''https://echo360.org'' both_json = Inr (JStr ''https://s3/a_hd.mp4'')"
  using direct_file_wins [OF both_json_files, of example_urlparse sorted_list_of_set
      example_findall 5 "''https://echo360.org''"] both_json_manifests
  by simp

lemma manifest_only_mp4: "from_json_mp4 manifest_only_json = Inl ValueError"
  by (simp add: from_json_mp4_def manifest_only_json_def lecture_json_def)

lemma manifest_only_manifests:
  "from_json_m3u8 example_urlparse ''https://echo360.org'' manifest_only_json
     = Inr (JArr [JStr ''https://content.echo360.org/x/s1_av.m3u8''])"
  by (simp add: from_json_m3u8_def manifest_only_json_def lecture_json_def example_urlparse_def
      rewrite_host_def)

text \<open>
  Claim C2, on the program. The metadata below holds no direct file and one embedded
  manifest, and the page shows direct-file URLs. The embedded-manifest strategy succeeds
  with the rewritten manifest URI, yet the resolution goes on to the page scan and returns
  the scanned files: the value that the second \<^verbatim>\<open>try\<close> assigns to \<^verbatim>\<open>m3u8urls\<close> is never
  used.
\<close>

theorem embedded_manifest_result_discarded:
  "from_json_mp4 manifest_only_json = Inl ValueError
   \<and> from_json_m3u8 example_urlparse ''https://echo360.org'' manifest_only_json
       = Inr (JArr [JStr ''https://content.echo360.org/x/s1_av.m3u8''])
   \<and> EchoCloudVideo_loop_find_m3u8_url example_urlparse sorted_list_of_set example_findall 5
        ''https://echo360.org'' manifest_only_json
       = Inr (JArr [JStr ''https://h/a.hd1.mp4'', JStr ''https://h/a.hd2.mp4''])"
  by (simp add: manifest_only_mp4 manifest_only_manifests example_findall_mp4
      EchoCloudVideo_loop_find_m3u8_url_def)

section \<open>Properties of dates and collections\<close>

text \<open>
  Claim C8. For a multi-part lecture whose \<^verbatim>\<open>groupInfo\<close> has \<^verbatim>\<open>createdAt\<close> equal to
  \<^verbatim>\<open>None\<close> and no key spelled \<^verbatim>\<open>u'updatedAt'\<close> (the key the source reads; metadata
  spells it \<^verbatim>\<open>updatedAt\<close>), \<^verbatim>\<open>_extract_date\<close> raises \<^verbatim>\<open>KeyError\<close> and \<^verbatim>\<open>get_date\<close> returns
  \<^verbatim>\<open>"1970-01-01"\<close>, whatever else the metadata holds and whatever the date parser accepts.
\<close>

theorem multipart_date_falls_back:
  assumes "getitem video_json ''groupInfo'' = Inr (JObj info)"
    and "map_of info ''createdAt'' = Some JNull"
    and "updatedAt_key \<notin> fst ` set info"
  shows "EchoCloudVideo_extract_date True video_json = Inl KeyError
       \<and> get_date parse_date (EchoCloudVideo_extract_date True) video_json = ''1970-01-01''"
proof -
  have "map_of info updatedAt_key = None"
    using assms(3) by (simp add: map_of_eq_None_iff)
  then have "EchoCloudVideo_extract_date True video_json = Inl KeyError"
    using assms(1,2) by (simp add: EchoCloudVideo_extract_date_def)
  then show ?thesis by (simp add: get_date_def)
qed

theorem multipart_date_witness:
  "getitem multipart_json ''groupInfo'' =
      Inr (JObj [(''name'', JStr ''Week 1''), (''createdAt'', JNull),
                 (''updatedAt'', JStr ''2024-03-05T10:00:00Z'')])
   \<and> example_parse_date (JStr ''2024-03-05T10:00:00Z'') = Some ''2024-03-05''
   \<and> get_date example_parse_date (EchoCloudVideo_extract_date True) multipart_json
       = ''1970-01-01''"
proof -
  have g: "getitem multipart_json ''groupInfo'' =
      Inr (JObj [(''name'', JStr ''Week 1''), (''createdAt'', JNull),
                 (''updatedAt'', JStr ''2024-03-05T10:00:00Z'')])"
    by (simp add: multipart_json_def)
  have c: "map_of [(''name'', JStr ''Week 1''), (''createdAt'', JNull),
                 (''updatedAt'', JStr ''2024-03-05T10:00:00Z'')] ''createdAt'' = Some JNull"
    by simp
  have k: "updatedAt_key \<notin> fst ` set [(''name'', JStr ''Week 1''), (''createdAt'', JNull),
                 (''updatedAt'', JStr ''2024-03-05T10:00:00Z'')]"
    by (simp add: updatedAt_key_def)
  show ?thesis
    using multipart_date_falls_back [OF g c k, of example_parse_date] g
    by (simp add: example_parse_date_def)
qed

text \<open>
  Both constructors end with a sort by the date attribute, so the list they expose is
  sorted by date string. This says nothing about the order of the lectures in time when
  the date strings are not their dates.
\<close>

lemma videos_sorted_by_date_string:
  "(EchoVideos_init ev videos_json = Inr videos \<longrightarrow> sorted (map self_date videos))
   \<and> (EchoCloudVideos_init ev course_json hostname alternative_feeds subtitles course_name
         skip_video_on_error = Inr cloud_videos
       \<longrightarrow> sorted (map self_date cloud_videos))"
  by (auto simp: EchoVideos_init_def EchoCloudVideos_init_def Let_def
      split: if_splits sum.splits)

lemma example_player:
  "EchoVideo_loop_find_m3u8_url 5 (player_src example_env u) = Inr (JStr ''https://h/a.m3u8'')"
  by (simp add: EchoVideo_loop_find_m3u8_url_def retry_loop_TryReturned example_env_def)

lemma build_videos_skip: "build_videos True videos_json = Inr []"
  by (induction videos_json) (simp_all add: course_EchoCloudVideo_def)

text \<open>
  Claim C10, on the program. The course data below list a lecture of 5 March 2024 before
  a lecture of 1 March 2024, and the date parser reads both start times.
  \<^item> \<^verbatim>\<open>EchoVideos\<close>: \<^verbatim>\<open>EchoVideo.__init__\<close> hands \<^verbatim>\<open>video_json["startTime"]\<close> to
    \<^verbatim>\<open>get_date\<close>, and \<^verbatim>\<open>_extract_date\<close> reads \<^verbatim>\<open>["startTime"]\<close> of that string: a
    \<^verbatim>\<open>TypeError\<close>, so both lectures get the date \<^verbatim>\<open>1970-01-01\<close>. The stable sort leaves
    them as they came: the lecture of 5 March is first, the list is not oldest-first.
  \<^item> \<^verbatim>\<open>EchoCloudVideos\<close> of \<^verbatim>\<open>course.py\<close>: every lecture object fails to be built
    (\<^verbatim>\<open>NameError\<close>); the exposed list is empty when errors are skipped, and the
    constructor raises otherwise.
\<close>

theorem legacy_dates_default_keep_input_order:
  "example_parse_date (JStr ''2024-03-05T10:00:00Z'') = Some ''2024-03-05''
   \<and> example_parse_date (JStr ''2024-03-01T09:00:00Z'') = Some ''2024-03-01''
   \<and> EchoVideos_init example_env legacy_course_json
       = Inr [\<lparr>self_url = JStr ''https://h/a.m3u8'', self_date = ''1970-01-01'',
                self_title = JStr ''Second''\<rparr>,
              \<lparr>self_url = JStr ''https://h/a.m3u8'', self_date = ''1970-01-01'',
                self_title = JStr ''First''\<rparr>]
   \<and> EchoCloudVideos_init example_env cloud_course_json ''https://echo360.org''
         False True (Some ''Course'') True = Inr []
   \<and> EchoCloudVideos_init example_env cloud_course_json ''https://echo360.org''
         False True (Some ''Course'') False = Inl NameError"
proof -
  have dates: "example_parse_date (JStr ''2024-03-05T10:00:00Z'') = Some ''2024-03-05''"
    "example_parse_date (JStr ''2024-03-01T09:00:00Z'') = Some ''2024-03-01''"
    by (simp_all add: example_parse_date_def)
  have legacy: "EchoVideos_init example_env legacy_course_json
       = Inr [\<lparr>self_url = JStr ''https://h/a.m3u8'', self_date = ''1970-01-01'',
                self_title = JStr ''Second''\<rparr>,
              \<lparr>self_url = JStr ''https://h/a.m3u8'', self_date = ''1970-01-01'',
                self_title = JStr ''First''\<rparr>]"
    by (simp add: EchoVideos_init_def legacy_course_json_def legacy_json_def EchoVideo_init_def
        example_player get_date_def EchoVideo_extract_date_def Let_def)
  have items: "lesson_items
       [lesson_json ''L2'' ''Second'' ''2024-03-05T10:00:00Z'', JStr ''not a dictionary'',
        lesson_json ''L1'' ''First'' ''2024-03-01T09:00:00Z'']
     = Inr [lesson_json ''L2'' ''Second'' ''2024-03-05T10:00:00Z'',
            lesson_json ''L1'' ''First'' ''2024-03-01T09:00:00Z'']"
    by (simp add: lesson_json_def lower_def)
  have skip: "EchoCloudVideos_init example_env cloud_course_json ''https://echo360.org''
         False True (Some ''Course'') True = Inr []"
    by (simp add: EchoCloudVideos_init_def cloud_course_json_def items build_videos_skip
        del: lesson_items.simps build_videos.simps)
  have raise: "EchoCloudVideos_init example_env cloud_course_json ''https://echo360.org''
         False True (Some ''Course'') False = Inl NameError"
    by (simp add: EchoCloudVideos_init_def cloud_course_json_def items course_EchoCloudVideo_def
        del: lesson_items.simps)
  from dates legacy skip raise show ?thesis by simp
qed

section \<open>Properties of fetching and remuxing\<close>

lemma download_video_existing:
  "exists w (path_join output_dir (filename @ ''.mp4'')) \<Longrightarrow>
   download_video ev single_url output_dir filename w = (Inr True, w)"
  by (simp add: download_video_def)

lemma download_video_direct_file:
  "\<not> endswith url ''.m3u8'' \<Longrightarrow>
   exists (snd (download_video ev (JStr url) output_dir filename w))
     (path_join output_dir (filename @ ''.mp4''))"
  by (simp add: download_video_def exists_def write_file_def log_request_def Let_def)

text \<open>
  Claim C3, as the program has it. For a lecture that is not in subtitle mode: if the
  file \<^verbatim>\<open>strip_illegal_path(filename) + ".mp4"\<close> exists in the destination directory,
  \<^verbatim>\<open>download_single\<close> returns \<^verbatim>\<open>True\<close> and the world is unchanged: no request, no run
  of the mux tool, no file touched. A direct-file download leaves that file behind, so
  running it a second time is such a no-op. (In subtitle mode the subtitle branch comes
  before the check; see the counterexample.)
\<close>

theorem existing_artifact_skips_download:
  assumes "\<not> self_download_subtitles self"
  shows "(exists w (path_join output_dir (strip_illegal_path ev filename @ ''.mp4'')) \<longrightarrow>
            download_single ev self single_url output_dir filename w = (Inr True, w))
       \<and> (\<not> endswith url ''.m3u8'' \<longrightarrow>
            (let w1 = snd (download_single ev self (JStr url) output_dir filename w)
             in download_single ev self (JStr url) output_dir filename w1 = (Inr True, w1)))"
  using assms
  by (simp add: download_single_def Let_def download_video_existing download_video_direct_file)

lemma world_with_mp4_exists:
  "exists world_with_mp4
     (path_join ''out/Course/dirty'' (strip_illegal_path example_env ''Second'' @ ''.mp4''))"
  by (simp add: exists_def world_with_mp4_def path_join_def example_env_def)

theorem existing_artifact_witness:
  "\<not> self_download_subtitles (lesson_video False False (JStr ''https://h/a.hd1.mp4''))
   \<and> exists world_with_mp4
        (path_join ''out/Course/dirty'' (strip_illegal_path example_env ''Second'' @ ''.mp4''))
   \<and> download_single example_env (lesson_video False False (JStr ''https://h/a.hd1.mp4''))
        (JStr ''https://h/a.hd1.mp4'') ''out/Course/dirty'' ''Second'' world_with_mp4
       = (Inr True, world_with_mp4)"
proof -
  have s: "\<not> self_download_subtitles (lesson_video False False (JStr ''https://h/a.hd1.mp4''))"
    by (simp add: lesson_video_def)
  show ?thesis
    using existing_artifact_skips_download [OF s, of world_with_mp4 "''out/Course/dirty''"
        example_env "''Second''" "JStr ''https://h/a.hd1.mp4''" "''https://h/a.hd1.mp4''"]
      world_with_mp4_exists s
    by simp
qed

text \<open>
  The claim as stated, for every lecture, fails in subtitle mode: the final file of the
  lecture exists, and \<^verbatim>\<open>download_single\<close> still requests the transcript (a GET and a
  HEAD).
\<close>

theorem subtitle_mode_counterexample:
  "exists world_with_mp4
     (path_join ''out/Course/dirty'' (strip_illegal_path example_env ''Second'' @ ''.mp4''))
   \<and> fst (download_single example_env (lesson_video True False JNull) JNull
             ''out/Course/dirty'' ''Second'' world_with_mp4) = Inr True
   \<and> requests (snd (download_single example_env (lesson_video True False JNull) JNull
                       ''out/Course/dirty'' ''Second'' world_with_mp4))
       = [GET ''https://echo360.org/api/ui/echoplayer/lessons/L2/medias/m-L2/transcript-file?format=vtt'',
          HEAD ''https://echo360.org/api/ui/echoplayer/lessons/L2/medias/m-L2/transcript-file?format=vtt'']
   \<and> requests world_with_mp4 = []"
  by (simp add: world_with_mp4_exists)
     (simp add: download_single_def download_subtitle_def lesson_video_def lesson_json_def
      lesson_media_id_def example_env_def example_str_def world_with_mp4_def exists_def
      path_join_def dirname_def transcript_url_def log_request_def write_file_def Let_def)

lemma path_join_append_inject:
  assumes "path_join a (p @ x) = path_join a (p @ y)"
    and "x \<noteq> []" "hd x \<noteq> CHR ''/''" "y \<noteq> []" "hd y \<noteq> CHR ''/''"
  shows "x = y"
proof (cases p)
  case Nil
  then show ?thesis using assms by (auto simp: path_join_def split: if_splits)
next
  case (Cons c cs)
  then show ?thesis using assms by (auto simp: path_join_def split: if_splits)
qed

lemma artifact_paths_distinct:
  "path_join d (f @ ''_video.'' @ e1) \<noteq> path_join d (f @ ''_audio.'' @ e2)"
  "path_join d (f @ ''_video.'' @ e1) \<noteq> path_join d (f @ ''.mp4'')"
  "path_join d (f @ ''_audio.'' @ e2) \<noteq> path_join d (f @ ''.mp4'')"
  using path_join_append_inject [of d f "''_video.'' @ e1" "''_audio.'' @ e2"]
    path_join_append_inject [of d f "''_video.'' @ e1" "''.mp4''"]
    path_join_append_inject [of d f "''_audio.'' @ e2" "''.mp4''"]
  by auto

lemma combine_audio_video_failure:
  assumes "ffmpeg ev \<lparr>video_input = video_file, audio_input = audio_file,
                       mux_output = final_file\<rparr>
           \<in> {FFExecutableNotFoundError, FFRuntimeError}"
  shows "fst (combine_audio_video ev audio_file video_file final_file w) = False"
    and "files (snd (combine_audio_video ev audio_file video_file final_file w))
           = (files w)(final_file := None)"
    and "requests (snd (combine_audio_video ev audio_file video_file final_file w))
           = requests w"
  using assms
  by (auto simp: combine_audio_video_def Let_def exists_def remove_def fun_upd_idem)

lemma download_url_to_dir_result:
  assumes "hls_download ev u output_dir = (r, d)"
  shows "fst (download_url_to_dir ev u output_dir filename w)
           = path_join output_dir (filename @ ''.'' @ last_segment r)"
    and "files (snd (download_url_to_dir ev u output_dir filename w))
           = ((files w)(r := None))
               (path_join output_dir (filename @ ''.'' @ last_segment r) \<mapsto> d)"
  using assms
  by (auto simp: download_url_to_dir_def Let_def rename_def write_file_def log_request_def)

text \<open>
  Claim C4. Let the mux tool be missing or fail on every run. Then
  \<^item> \<^verbatim>\<open>combine_audio_video\<close> returns \<^verbatim>\<open>False\<close>; afterwards there is no file at the target
    path (nothing was created or written there; an older file at that path is removed
    before the tool is started) and every other file is as before;
  \<^item> \<^verbatim>\<open>download_single\<close> on a manifest with a video and an audio stream returns \<^verbatim>\<open>True\<close>
    all the same, both raw artifacts are in the destination directory with what was
    downloaded, and there is no combined file. The hypothesis on \<open>rv\<close> says that the
    downloader's own file for the video is not the audio artifact.
\<close>

theorem mux_failure_keeps_artifacts:
  assumes tool: "\<forall>inputs. ffmpeg ev inputs \<in> {FFExecutableNotFoundError, FFRuntimeError}"
  shows "(fst (combine_audio_video ev audio video final w) = False
          \<and> files (snd (combine_audio_video ev audio video final w)) final = None
          \<and> (\<forall>p. p \<noteq> final \<longrightarrow>
                files (snd (combine_audio_video ev audio video final w)) p = files w p))
       \<and> (\<not> self_download_subtitles self
          \<and> \<not> exists w (path_join output_dir (strip_illegal_path ev filename @ ''.mp4''))
          \<and> endswith url ''.m3u8'' \<and> status_code (session_get ev url) < 400
          \<and> m3u8_parse ev (split_lines (content (session_get ev url)))
                = Inr (Some video_uri, Some audio_uri)
          \<and> hls_download ev (urljoin ev url audio_uri) output_dir = (ra, da)
          \<and> hls_download ev (urljoin ev url video_uri) output_dir = (rv, dv)
          \<and> rv \<noteq> path_join output_dir
                     (strip_illegal_path ev filename @ ''_audio.'' @ last_segment ra)
          \<longrightarrow>
            (let (result, w') = download_single ev self (JStr url) output_dir filename w
             in result = Inr True
                \<and> files w' (path_join output_dir
                     (strip_illegal_path ev filename @ ''_video.'' @ last_segment rv)) = Some dv
                \<and> files w' (path_join output_dir
                     (strip_illegal_path ev filename @ ''_audio.'' @ last_segment ra)) = Some da
                \<and> files w' (path_join output_dir
                     (strip_illegal_path ev filename @ ''.mp4'')) = None))"
proof -
  have fail: "\<And>a v f. ffmpeg ev \<lparr>video_input = v, audio_input = a, mux_output = f\<rparr>
           \<in> {FFExecutableNotFoundError, FFRuntimeError}"
    using tool by blast
  have first: "fst (combine_audio_video ev audio video final w) = False
          \<and> files (snd (combine_audio_video ev audio video final w)) final = None
          \<and> (\<forall>p. p \<noteq> final \<longrightarrow>
                files (snd (combine_audio_video ev audio video final w)) p = files w p)"
    using combine_audio_video_failure [OF fail, of audio video final w] by simp
  have second: "(let (result, w') = download_single ev self (JStr url) output_dir filename w
             in result = Inr True
                \<and> files w' (path_join output_dir
                     (strip_illegal_path ev filename @ ''_video.'' @ last_segment rv)) = Some dv
                \<and> files w' (path_join output_dir
                     (strip_illegal_path ev filename @ ''_audio.'' @ last_segment ra)) = Some da
                \<and> files w' (path_join output_dir
                     (strip_illegal_path ev filename @ ''.mp4'')) = None)"
    if sub: "\<not> self_download_subtitles self"
      and nofinal: "\<not> exists w (path_join output_dir (strip_illegal_path ev filename @ ''.mp4''))"
      and m3u8: "endswith url ''.m3u8''" and ok: "status_code (session_get ev url) < 400"
      and parse: "m3u8_parse ev (split_lines (content (session_get ev url)))
                = Inr (Some video_uri, Some audio_uri)"
      and a: "hls_download ev (urljoin ev url audio_uri) output_dir = (ra, da)"
      and v: "hls_download ev (urljoin ev url video_uri) output_dir = (rv, dv)"
      and distinct: "rv \<noteq> path_join output_dir
                     (strip_illegal_path ev filename @ ''_audio.'' @ last_segment ra)"
  proof -
    define fn where "fn = strip_illegal_path ev filename"
    define w1 where "w1 = log_request (GET url) w"
    define A where "A = download_url_to_dir ev (urljoin ev url audio_uri) output_dir (fn @ ''_audio'') w1"
    define V where "V = download_url_to_dir ev (urljoin ev url video_uri) output_dir (fn @ ''_video'') (snd A)"
    define C where "C = combine_audio_video ev (Some (fst A)) (fst V)
                          (path_join output_dir (fn @ ''.mp4'')) (snd V)"
    have Afst: "fst A = path_join output_dir (fn @ ''_audio.'' @ last_segment ra)"
      and Afiles: "files (snd A) (fst A) = Some da"
      using download_url_to_dir_result [OF a, of "fn @ ''_audio''" w1] by (simp_all add: A_def)
    have Vfst: "fst V = path_join output_dir (fn @ ''_video.'' @ last_segment rv)"
      and Vfiles: "files (snd V) = ((files (snd A))(rv := None))(fst V \<mapsto> dv)"
      using download_url_to_dir_result [OF v, of "fn @ ''_video''" "snd A"] by (simp_all add: V_def)
    have Cfst: "fst C = False"
      and Cfiles: "files (snd C) = (files (snd V))(path_join output_dir (fn @ ''.mp4'') := None)"
      using combine_audio_video_failure [OF fail, of "Some (fst A)" "fst V"
          "path_join output_dir (fn @ ''.mp4'')" "snd V"] by (simp_all add: C_def)
    have run: "download_single ev self (JStr url) output_dir filename w = (Inr True, snd C)"
      using sub nofinal m3u8 ok parse Cfst
      by (simp add: download_single_def download_video_def Let_def case_prod_beta
          fn_def [symmetric] w1_def [symmetric] A_def [symmetric] V_def [symmetric]
          C_def [symmetric])
    have neq: "fst V \<noteq> fst A" "fst V \<noteq> path_join output_dir (fn @ ''.mp4'')"
       "fst A \<noteq> path_join output_dir (fn @ ''.mp4'')"
      unfolding Afst Vfst using artifact_paths_distinct [of output_dir fn] by simp_all
    have "files (snd C) (fst V) = Some dv"
      using neq by (simp add: Cfiles Vfiles)
    moreover have "files (snd C) (fst A) = Some da"
      using neq distinct Afiles by (simp add: Cfiles Vfiles Afst fn_def)
    moreover have "files (snd C) (path_join output_dir (fn @ ''.mp4'')) = None"
      by (simp add: Cfiles)
    ultimately show ?thesis
      unfolding run by (simp add: Afst Vfst fn_def)
  qed
  from first second show ?thesis by blast
qed

lemma str_nat_1: "str_nat (Suc 0) = ''1''"
  by (simp add: str_nat.simps)

lemma str_nat_2: "str_nat (Suc (Suc 0)) = ''2''"
  by (simp add: str_nat.simps)

lemma mux_failure_example_tool:
  "\<forall>inputs. ffmpeg example_env inputs \<in> {FFExecutableNotFoundError, FFRuntimeError}"
  by (simp add: example_env_def)

theorem mux_failure_witness:
  "(\<forall>inputs. ffmpeg example_env inputs \<in> {FFExecutableNotFoundError, FFRuntimeError})
   \<and> (let (result, w') =
            download_single example_env (lesson_video False False (JStr ''https://h/x/s1_av.m3u8''))
              (JStr ''https://h/x/s1_av.m3u8'') ''out/Course/dirty'' ''Second'' empty_world
        in result = Inr True
           \<and> files w' ''out/Course/dirty/Second_video.ts'' = Some ''data''
           \<and> files w' ''out/Course/dirty/Second_audio.ts'' = Some ''data''
           \<and> files w' ''out/Course/dirty/Second.mp4'' = None)"
proof -
  have hyps: "\<not> self_download_subtitles (lesson_video False False (JStr ''https://h/x/s1_av.m3u8''))
          \<and> \<not> exists empty_world (path_join ''out/Course/dirty'' (strip_illegal_path example_env ''Second'' @ ''.mp4''))
          \<and> endswith ''https://h/x/s1_av.m3u8'' ''.m3u8''
          \<and> status_code (session_get example_env ''https://h/x/s1_av.m3u8'') < 400
          \<and> m3u8_parse example_env (split_lines (content (session_get example_env ''https://h/x/s1_av.m3u8'')))
                = Inr (Some ''video.m3u8'', Some ''audio.m3u8'')
          \<and> hls_download example_env (urljoin example_env ''https://h/x/s1_av.m3u8'' ''audio.m3u8'') ''out/Course/dirty''
                = (''out/Course/dirty/audio.m3u8.ts'', ''data'')
          \<and> hls_download example_env (urljoin example_env ''https://h/x/s1_av.m3u8'' ''video.m3u8'') ''out/Course/dirty''
                = (''out/Course/dirty/video.m3u8.ts'', ''data'')
          \<and> ''out/Course/dirty/video.m3u8.ts'' \<noteq> path_join ''out/Course/dirty''
                     (strip_illegal_path example_env ''Second'' @ ''_audio.'' @ last_segment ''out/Course/dirty/audio.m3u8.ts'')"
    by (simp add: lesson_video_def exists_def empty_world_def example_env_def endswith_def
        path_join_def dirname_def basename_def last_segment_def)
  have paths: "path_join ''out/Course/dirty'' (strip_illegal_path example_env ''Second'' @ ''_video.'' @ last_segment ''out/Course/dirty/video.m3u8.ts'') = ''out/Course/dirty/Second_video.ts''"
    "path_join ''out/Course/dirty'' (strip_illegal_path example_env ''Second'' @ ''_audio.'' @ last_segment ''out/Course/dirty/audio.m3u8.ts'') = ''out/Course/dirty/Second_audio.ts''"
    "path_join ''out/Course/dirty'' (strip_illegal_path example_env ''Second'' @ ''.mp4'') = ''out/Course/dirty/Second.mp4''"
    by (simp_all add: path_join_def example_env_def last_segment_def)
  from mux_failure_keeps_artifacts [OF mux_failure_example_tool, THEN conjunct2, rule_format, OF hyps]
  show ?thesis
    using mux_failure_example_tool unfolding paths by simp
qed

lemma download_feeds_one:
  "download_feeds ev self dirty_dir filename 0 [u] True w =
     download_single ev self u dirty_dir
       (if self_download_alternative_feeds self then filename @ ''1'' else filename) w"
  by (simp add: Let_def str_nat_1 split: prod.splits sum.splits)

lemma download_feeds_two:
  "self_download_alternative_feeds self \<Longrightarrow>
   download_feeds ev self dirty_dir filename 0 [u1, u2] True w =
     (case download_single ev self u1 dirty_dir (filename @ ''1'') w of
        (Inl e, w2) \<Rightarrow> (Inl e, w2)
      | (Inr r1, w2) \<Rightarrow>
          (case download_single ev self u2 dirty_dir (filename @ ''2'') w2 of
             (Inl e, w3) \<Rightarrow> (Inl e, w3)
           | (Inr r2, w3) \<Rightarrow> (Inr (r1 \<and> r2), w3)))"
  by (simp add: Let_def str_nat_1 str_nat_2 split: prod.splits sum.splits)

text \<open>
  Claim C5. In video mode, after the attached media have been handled (leaving the world
  \<open>w1\<close>), \<^verbatim>\<open>download\<close> is
  \<^item> with alternative feeds off: one \<^verbatim>\<open>download_single\<close>, of the first candidate, under the
    unsuffixed file name, however many candidates there are;
  \<^item> with alternative feeds on: one \<^verbatim>\<open>download_single\<close> per candidate, in order, the first
    under the file name suffixed \<^verbatim>\<open>1\<close> and the second under the file name suffixed \<^verbatim>\<open>2\<close>
    (the second is not started if the first raises);
  \<^item> for a single URL that is no list (the direct-file strategy): one \<^verbatim>\<open>download_single\<close>,
    suffixed \<^verbatim>\<open>1\<close> exactly if alternative feeds are on.
\<close>

theorem alternative_feeds_select_downloads:
  assumes "\<not> self_download_subtitles self"
    and "getpath (self_video_json self) [''lesson'', ''medias''] = Inr medias"
    and "iterate medias = Inr ms"
    and "dirty_dir = path_join (path_join output_dir
                       (strip_illegal_path ev (self_course_name self))) ''dirty''"
    and "download_attached ev (self_hostname self) dirty_dir ms w = (None, w1)"
  shows "(\<not> self_download_alternative_feeds self \<and> self_url self = JArr (u # us) \<longrightarrow>
            download ev self output_dir filename w
              = download_single ev self u dirty_dir filename w1)
       \<and> (self_download_alternative_feeds self \<and> self_url self = JArr [u1] \<longrightarrow>
            download ev self output_dir filename w
              = download_single ev self u1 dirty_dir (filename @ ''1'') w1)
       \<and> (self_download_alternative_feeds self \<and> self_url self = JArr [u1, u2] \<longrightarrow>
            download ev self output_dir filename w
              = (case download_single ev self u1 dirty_dir (filename @ ''1'') w1 of
                   (Inl e, w2) \<Rightarrow> (Inl e, w2)
                 | (Inr r1, w2) \<Rightarrow>
                     (case download_single ev self u2 dirty_dir (filename @ ''2'') w2 of
                        (Inl e, w3) \<Rightarrow> (Inl e, w3)
                      | (Inr r2, w3) \<Rightarrow> (Inr (r1 \<and> r2), w3))))
       \<and> (self_url self = JStr direct \<longrightarrow>
            download ev self output_dir filename w
              = download_single ev self (JStr direct) dirty_dir
                  (if self_download_alternative_feeds self then filename @ ''1'' else filename) w1)"
  using assms(1,2,3,5) unfolding assms(4)
  by (simp add: download_def Let_def download_feeds_one download_feeds_two
      del: download_feeds.simps)

lemma lesson_video_medias:
  "getpath (self_video_json (lesson_video s a r)) [''lesson'', ''medias'']
     = Inr (JArr [JObj [(''mediaType'', JStr ''Video''), (''id'', JStr ''m-L2'')]])"
  by (simp add: lesson_video_def lesson_json_def)

lemma lesson_video_attached:
  "download_attached example_env (self_hostname (lesson_video s a r)) d
     [JObj [(''mediaType'', JStr ''Video''), (''id'', JStr ''m-L2'')]] w = (None, w)"
  by simp

lemma lesson_video_dirty:
  "''out/Course/dirty'' = path_join (path_join ''out''
      (strip_illegal_path example_env (self_course_name (lesson_video s a r)))) ''dirty''"
  by (simp add: path_join_def example_env_def lesson_video_def)

theorem alternative_feeds_witness:
  "download example_env (lesson_video False False two_feeds) ''out'' ''Second'' empty_world
     = download_single example_env (lesson_video False False two_feeds)
         (JStr ''https://h/a.hd1.mp4'') ''out/Course/dirty'' ''Second'' empty_world
   \<and> download example_env (lesson_video False True two_feeds) ''out'' ''Second'' empty_world
     = (case download_single example_env (lesson_video False True two_feeds)
               (JStr ''https://h/a.hd1.mp4'') ''out/Course/dirty'' (''Second'' @ ''1'') empty_world of
          (Inl e, w2) \<Rightarrow> (Inl e, w2)
        | (Inr r1, w2) \<Rightarrow>
            (case download_single example_env (lesson_video False True two_feeds)
                    (JStr ''https://h/a.hd2.mp4'') ''out/Course/dirty'' (''Second'' @ ''2'') w2 of
               (Inl e, w3) \<Rightarrow> (Inl e, w3)
             | (Inr r2, w3) \<Rightarrow> (Inr (r1 \<and> r2), w3)))"
proof -
  have off: "\<not> self_download_subtitles (lesson_video False False two_feeds)"
    "\<not> self_download_alternative_feeds (lesson_video False False two_feeds)"
    "self_url (lesson_video False False two_feeds)
       = JArr (JStr ''https://h/a.hd1.mp4'' # [JStr ''https://h/a.hd2.mp4''])"
    by (simp_all add: lesson_video_def two_feeds_def)
  have on: "\<not> self_download_subtitles (lesson_video False True two_feeds)"
    "self_download_alternative_feeds (lesson_video False True two_feeds)"
    "self_url (lesson_video False True two_feeds)
       = JArr [JStr ''https://h/a.hd1.mp4'', JStr ''https://h/a.hd2.mp4'']"
    by (simp_all add: lesson_video_def two_feeds_def)
  have it: "iterate (JArr [JObj [(''mediaType'', JStr ''Video''), (''id'', JStr ''m-L2'')]])
              = Inr [JObj [(''mediaType'', JStr ''Video''), (''id'', JStr ''m-L2'')]]"
    by simp
  note a = alternative_feeds_select_downloads [OF off(1) lesson_video_medias it
      lesson_video_dirty lesson_video_attached, THEN conjunct1, rule_format, OF conjI,
      OF off(2) off(3)]
  note b = alternative_feeds_select_downloads [OF on(1) lesson_video_medias it
      lesson_video_dirty lesson_video_attached, THEN conjunct2, THEN conjunct2,
      THEN conjunct1, rule_format, OF conjI, OF on(2) on(3)]
  show ?thesis using a [of "''Second''" empty_world] b [of "''Second''" empty_world] by simp
qed

section \<open>Properties of the traversal\<close>

text \<open>
  What one or more steps of the traversal may do to the set of processed dates, to the
  log of requests and to the files: the set grows, every request is paid for by a new
  date, and without a new date there is no request and no change of a file.
\<close>

definition transcripts_within :: "course \<Rightarrow> world \<Rightarrow> course \<Rightarrow> world \<Rightarrow> bool" where
  "transcripts_within c w c1 w1 =
     (finite (processed_lecture_dates c1)
      \<and> processed_lecture_dates c \<subseteq> processed_lecture_dates c1
      \<and> length (requests w1) + card (processed_lecture_dates c)
            \<le> length (requests w) + card (processed_lecture_dates c1)
      \<and> (processed_lecture_dates c1 = processed_lecture_dates c \<longrightarrow>
            requests w1 = requests w \<and> files w1 = files w))"

lemma transcripts_within_same:
  "finite (processed_lecture_dates c) \<Longrightarrow> processed_lecture_dates c1 = processed_lecture_dates c
   \<Longrightarrow> requests w1 = requests w \<Longrightarrow> files w1 = files w \<Longrightarrow> transcripts_within c w c1 w1"
  by (simp add: transcripts_within_def)

lemma transcripts_within_trans:
  assumes "transcripts_within c w c1 w1" and "transcripts_within c1 w1 c2 w2"
  shows "transcripts_within c w c2 w2"
proof -
  have "processed_lecture_dates c2 = processed_lecture_dates c \<Longrightarrow>
        processed_lecture_dates c1 = processed_lecture_dates c"
    using assms by (auto simp: transcripts_within_def)
  then show ?thesis
    using assms by (auto simp: transcripts_within_def)
qed

lemma fetch_transcript_within:
  assumes "finite (processed_lecture_dates c)"
    and "lecture_date \<notin> processed_lecture_dates c"
    and "fetch_transcript ev hostname course_name item media_id lecture_name lecture_date c w
           = (f, c1, w1)"
  shows "transcripts_within c w c1 w1"
proof -
  have dates: "processed_lecture_dates c1 = insert lecture_date (processed_lecture_dates c)"
    using assms(3) by (auto simp: fetch_transcript_def Let_def split: sum.splits if_splits)
  have reqs: "length (requests w1) \<le> length (requests w) + 1"
    using assms(3)
    by (auto simp: fetch_transcript_def Let_def log_request_def write_file_def
        split: sum.splits if_splits)
  have "card (processed_lecture_dates c1) = card (processed_lecture_dates c) + 1"
    using assms(1,2) dates by simp
  moreover have "processed_lecture_dates c1 \<noteq> processed_lecture_dates c"
    using assms(2) dates by auto
  ultimately show ?thesis
    using assms(1) dates reqs by (auto simp: transcripts_within_def)
qed

lemma process_transcript_outcome:
  assumes "process_transcript ev hostname course_name item c w = (f, c1, w1)"
  shows "(c1 = c \<and> w1 = w)
       \<or> (c1 = c\<lparr>processed_lectures := processed_lectures c + 1\<rparr> \<and> w1 = w)
       \<or> (\<exists>media_id lecture_name lecture_date.
             lecture_date \<notin> processed_lecture_dates c
             \<and> fetch_transcript ev hostname course_name item media_id lecture_name
                  lecture_date c w = (f, c1, w1))"
  using assms
  by (auto simp: process_transcript_def Let_def split: sum.splits json.splits if_splits)

lemma process_transcript_within:
  assumes "finite (processed_lecture_dates c)"
    and "process_transcript ev hostname course_name item c w = (f, c1, w1)"
  shows "transcripts_within c w c1 w1"
  using process_transcript_outcome [OF assms(2)] assms(1)
  by (auto intro: transcripts_within_same fetch_transcript_within)

lemma enqueue_folder_unchanged:
  "enqueue_folder ev course_name folder item c = (r, c1) \<Longrightarrow>
   processed_lecture_dates c1 = processed_lecture_dates c"
  by (auto simp: enqueue_folder_def Let_def split: sum.splits json.splits)

lemma process_item_outcome:
  assumes "process_item ev hostname course_name folder item c w = (r, brk, c1, w1)"
  shows "(processed_lecture_dates c1 = processed_lecture_dates c
          \<and> requests w1 = requests w \<and> files w1 = files w)
       \<or> (\<exists>item1 c0 w0 f c2.
             processed_lecture_dates c0 = processed_lecture_dates c
             \<and> requests w0 = requests w \<and> files w0 = files w
             \<and> process_transcript ev hostname course_name item1 c0 w0 = (f, c2, w1)
             \<and> processed_lecture_dates c1 = processed_lecture_dates c2)"
proof (cases "\<exists>kvs t ident. item = JObj kvs \<and> getitem item ''type'' = Inr (JStr t)
                \<and> is_substring ''lesson'' (lower t)
                \<and> getpath item [''lesson'', ''lesson'', ''id''] = Inr ident
                \<and> \<not> no_content ev (classroom_url hostname (py_str ev ident))")
  case True
  then obtain kvs t ident where item: "item = JObj kvs"
    and ty: "getitem item ''type'' = Inr (JStr t)" "is_substring ''lesson'' (lower t)"
    and ident: "getpath item [''lesson'', ''lesson'', ''id''] = Inr ident"
    and content: "\<not> no_content ev (classroom_url hostname (py_str ev ident))"
    by blast
  define w0 where "w0 = w\<lparr>visited := visited w @ [classroom_url hostname (py_str ev ident)]\<rparr>"
  define item1 where "item1 = JObj (update_key ''path_prefix'' (JStr folder) kvs)"
  define c0 where "c0 = c\<lparr>processed_videos := processed_videos c @ [item1]\<rparr>"
  obtain f c2 w2 where pt: "process_transcript ev hostname course_name item1 c0 w0 = (f, c2, w2)"
    by (metis prod_cases3)
  have "w1 = w2 \<and> processed_lecture_dates c1 = processed_lecture_dates c2"
    using assms item ty ident content pt [unfolded item1_def c0_def]
    by (auto simp: process_item_def Let_def w0_def [symmetric]
        split: flow.splits if_splits)
  moreover have "processed_lecture_dates c0 = processed_lecture_dates c"
    "requests w0 = requests w" "files w0 = files w"
    by (simp_all add: c0_def w0_def)
  ultimately show ?thesis using pt by blast
next
  case False
  then have "processed_lecture_dates c1 = processed_lecture_dates c
          \<and> requests w1 = requests w \<and> files w1 = files w"
    using assms
    by (auto simp: process_item_def Let_def
        split: json.splits sum.splits if_splits prod.splits dest: enqueue_folder_unchanged)
  then show ?thesis by blast
qed

lemma process_item_within:
  assumes "finite (processed_lecture_dates c)"
    and "process_item ev hostname course_name folder item c w = (r, brk, c1, w1)"
  shows "transcripts_within c w c1 w1"
  using process_item_outcome [OF assms(2)]
proof (elim disjE exE conjE)
  assume "processed_lecture_dates c1 = processed_lecture_dates c"
    "requests w1 = requests w" "files w1 = files w"
  then show ?thesis using assms(1) by (rule_tac transcripts_within_same)
next
  fix item1 c0 w0 f c2
  assume same: "processed_lecture_dates c0 = processed_lecture_dates c"
    "requests w0 = requests w" "files w0 = files w"
    and pt: "process_transcript ev hostname course_name item1 c0 w0 = (f, c2, w1)"
    and d: "processed_lecture_dates c1 = processed_lecture_dates c2"
  have "finite (processed_lecture_dates c0)" using assms(1) same by simp
  then have "transcripts_within c0 w0 c2 w1" using pt by (rule process_transcript_within)
  then show ?thesis using same d by (simp add: transcripts_within_def)
qed

lemma for_items_within:
  assumes "finite (processed_lecture_dates c)"
    and "for_items ev hostname course_name folder items c w = (r, c1, w1)"
  shows "transcripts_within c w c1 w1"
  using assms
proof (induction items arbitrary: c w)
  case Nil
  then show ?case by (simp add: transcripts_within_def)
next
  case (Cons item rest)
  obtain r0 brk c0 w0
    where p: "process_item ev hostname course_name folder item c w = (r0, brk, c0, w0)"
    by (metis prod_cases4)
  have step: "transcripts_within c w c0 w0"
    using Cons.prems(1) p by (rule process_item_within)
  show ?case
  proof (cases "r0 = None \<and> \<not> brk")
    case True
    then have "for_items ev hostname course_name folder rest c0 w0 = (r, c1, w1)"
      using Cons.prems(2) p by simp
    moreover have "finite (processed_lecture_dates c0)"
      using step by (simp add: transcripts_within_def)
    ultimately have "transcripts_within c0 w0 c1 w1" by (rule Cons.IH [rotated])
    with step show ?thesis by (rule transcripts_within_trans)
  next
    case False
    then have "c1 = c0 \<and> w1 = w0"
      using Cons.prems(2) p by (auto split: option.splits if_splits)
    then show ?thesis using step by simp
  qed
qed

lemma traverse_within:
  assumes "finite (processed_lecture_dates c)"
    and "traverse ev hostname course_name c w = (r, c1, w1)"
  shows "transcripts_within c w c1 w1"
  using assms
proof (induction ev hostname course_name c w rule: traverse.induct)
  case (1 ev hostname course_name c w)
  show ?case
  proof (cases "queue c")
    case Nil
    then have "c1 = c \<and> w1 = w" using "1.prems"(2) by (simp add: traverse.simps)
    then show ?thesis using "1.prems"(1) by (simp add: transcripts_within_def)
  next
    case (Cons entry rest)
    show ?thesis
    proof (cases "found_future_lecture c")
      case True
      then have "c1 = c \<and> w1 = w"
        using "1.prems"(2) Cons by (simp add: traverse.simps [of _ _ _ c])
      then show ?thesis using "1.prems"(1) by (simp add: transcripts_within_def)
    next
      case False
      show ?thesis
      proof (cases "iterate (fst entry)")
        case (Inl e)
        then have "c1 = c\<lparr>queue := rest\<rparr> \<and> w1 = w"
          using "1.prems"(2) Cons False by (simp add: traverse.simps [of _ _ _ c])
        then show ?thesis using "1.prems"(1) by (simp add: transcripts_within_def)
      next
        case (Inr items)
        obtain r0 c0 w0 where f: "for_items ev hostname course_name (snd entry) items
                         (c\<lparr>queue := rest\<rparr>) w = (r0, c0, w0)"
          by (metis prod_cases3)
        have "finite (processed_lecture_dates (c\<lparr>queue := rest\<rparr>))"
          using "1.prems"(1) by simp
        then have "transcripts_within (c\<lparr>queue := rest\<rparr>) w c0 w0"
          using f by (rule for_items_within)
        then have step: "transcripts_within c w c0 w0"
          by (simp add: transcripts_within_def)
        show ?thesis
        proof (cases r0)
          case None
          then have t: "traverse ev hostname course_name c0 w0 = (r, c1, w1)"
            using "1.prems"(2) Cons False Inr f by (simp add: traverse.simps [of _ _ _ c])
          have "finite (processed_lecture_dates c0)"
            using step by (simp add: transcripts_within_def)
          then have "transcripts_within c0 w0 c1 w1"
            using "1.IH" [OF Cons False Inr f [symmetric] None refl] t by simp
          with step show ?thesis by (rule transcripts_within_trans)
        next
          case (Some e)
          then have "c1 = c0 \<and> w1 = w0"
            using "1.prems"(2) Cons False Inr f by (simp add: traverse.simps [of _ _ _ c])
          then show ?thesis using step by simp
        qed
      qed
    qed
  qed
qed

lemma map_of_update_key:
  "map_of (update_key k v kvs) k' = (if k' = k then Some v else map_of kvs k')"
  by (induction kvs) auto

lemma getitem_setitem:
  "k' \<noteq> k \<Longrightarrow> getitem (setitem j k v) k' = getitem j k'"
  by (cases j) (simp_all add: map_of_update_key)

lemma getpath_lesson_setitem:
  "getpath (setitem j ''path_prefix'' v) (''lesson'' # ks) = getpath j (''lesson'' # ks)"
  by (simp add: getitem_setitem)

lemma lesson_media_id_setitem:
  "lesson_media_id (setitem item ''path_prefix'' v) = lesson_media_id item"
  unfolding lesson_media_id_def by (simp add: getpath_lesson_setitem del: getpath.simps)

lemma lecture_date_of_setitem:
  "lecture_date_of (setitem item ''path_prefix'' v) = lecture_date_of item"
  unfolding lecture_date_of_def by (simp add: getitem_setitem)

lemma process_transcript_duplicate:
  assumes "lesson_media_id item = Inr media_id" and "media_id \<noteq> JNull"
    and "getpath item [''lesson'', ''lesson'', ''name''] = Inr (JStr name)"
    and "lecture_date_of item = Inr (JStr d)" and "d \<in> processed_lecture_dates c"
  shows "process_transcript ev hostname course_name item c w
           = (Continue, c\<lparr>processed_lectures := processed_lectures c + 1\<rparr>, w)"
  using assms by (simp add: process_transcript_def)

lemma process_item_duplicate:
  assumes "getitem item ''type'' = Inr (JStr t)" and "is_substring ''lesson'' (lower t)"
    and "getpath item [''lesson'', ''lesson'', ''id''] = Inr ident"
    and "\<not> no_content ev (classroom_url hostname (py_str ev ident))"
    and "lesson_media_id item = Inr media_id" and "media_id \<noteq> JNull"
    and "getpath item [''lesson'', ''lesson'', ''name''] = Inr (JStr name)"
    and "lecture_date_of item = Inr (JStr d)" and "d \<in> processed_lecture_dates c"
  shows "process_item ev hostname course_name folder item c w
           = (None, False,
              c\<lparr>processed_videos := processed_videos c
                                      @ [setitem item ''path_prefix'' (JStr folder)],
                processed_lectures := processed_lectures c + 1\<rparr>,
              w\<lparr>visited := visited w @ [classroom_url hostname (py_str ev ident)]\<rparr>)"
proof -
  obtain kvs where item: "item = JObj kvs" using assms(1) by (cases item) simp_all
  define item1 where "item1 = setitem item ''path_prefix'' (JStr folder)"
  define c0 where "c0 = c\<lparr>processed_videos := processed_videos c @ [item1]\<rparr>"
  define w0 where "w0 = w\<lparr>visited := visited w @ [classroom_url hostname (py_str ev ident)]\<rparr>"
  have n: "getpath item1 [''lesson'', ''lesson'', ''name''] = Inr (JStr name)"
    unfolding item1_def using assms(7) by (simp add: getpath_lesson_setitem del: getpath.simps)
  have "process_transcript ev hostname course_name item1 c0 w0
           = (Continue, c0\<lparr>processed_lectures := processed_lectures c0 + 1\<rparr>, w0)"
    using assms(5,6,8,9) n
    by (intro process_transcript_duplicate [where media_id = media_id and d = d and name = name])
       (simp_all add: item1_def c0_def lesson_media_id_setitem lecture_date_of_setitem)
  moreover have "process_item ev hostname course_name folder item c w =
      (case process_transcript ev hostname course_name item1 c0 w0 of
         (Continue, c2, w2) \<Rightarrow> (None, False, c2, w2)
       | (Normal, c2, w2) \<Rightarrow>
           (None, False, c2\<lparr>processed_lectures := processed_lectures c2 + 1\<rparr>, w2)
       | (Raised e, c2, w2) \<Rightarrow>
           if filename_bound c2 then
             (None, False, c2\<lparr>processed_lectures := processed_lectures c2 + 1\<rparr>, w2)
           else (Some UnboundLocalError, False, c2, w2))"
    using assms(1-4) unfolding item item1_def c0_def w0_def
    by (simp add: process_item_def Let_def)
  ultimately show ?thesis by (simp add: c0_def w0_def item1_def)
qed

text \<open>
  Claim C9. Python sets are finite, so let the set of processed dates be finite at the
  start.
  \<^item> Over one pass of \<^verbatim>\<open>get_videos\<close>, the set of processed dates only grows, and the
    number of requests issued is at most the number of dates that the pass added: a
    transcript is requested only by the lecture that adds its date to the set, so by at
    most one lecture per date. A pass that adds no date issues no request and changes no
    file.
  \<^item> A lecture with content whose date is in the set already (it has a video medium and a
    name, so that the date test is reached) is counted as processed, and the loop goes on
    with the next item: no request is issued, no file is changed, the mux tool is not
    run. (Its classroom page was opened in the browser before, for the "no content"
    test: the list \<open>visited\<close> grows.)
\<close>

theorem one_transcript_per_date:
  assumes "finite (processed_lecture_dates c)"
  shows "(get_videos_pass ev hostname course_name videos_json c w = (r, c', w') \<longrightarrow>
            processed_lecture_dates c \<subseteq> processed_lecture_dates c'
            \<and> length (requests w') + card (processed_lecture_dates c)
                 \<le> length (requests w) + card (processed_lecture_dates c')
            \<and> (processed_lecture_dates c' = processed_lecture_dates c \<longrightarrow>
                  requests w' = requests w \<and> files w' = files w))
       \<and> (getitem item ''type'' = Inr (JStr t) \<and> is_substring ''lesson'' (lower t)
          \<and> getpath item [''lesson'', ''lesson'', ''id''] = Inr ident
          \<and> \<not> no_content ev (classroom_url hostname (py_str ev ident))
          \<and> lesson_media_id item = Inr media_id \<and> media_id \<noteq> JNull
          \<and> getpath item [''lesson'', ''lesson'', ''name''] = Inr (JStr name)
          \<and> lecture_date_of item = Inr (JStr d) \<and> d \<in> processed_lecture_dates c
          \<longrightarrow>
            (\<exists>c1 w1. process_item ev hostname course_name folder item c w = (None, False, c1, w1)
               \<and> processed_lectures c1 = processed_lectures c + 1
               \<and> processed_lecture_dates c1 = processed_lecture_dates c
               \<and> requests w1 = requests w \<and> files w1 = files w
               \<and> mux_runs w1 = mux_runs w))"
proof -
  have first: "processed_lecture_dates c \<subseteq> processed_lecture_dates c'
            \<and> length (requests w') + card (processed_lecture_dates c)
                 \<le> length (requests w) + card (processed_lecture_dates c')
            \<and> (processed_lecture_dates c' = processed_lecture_dates c \<longrightarrow>
                  requests w' = requests w \<and> files w' = files w)"
    if pass: "get_videos_pass ev hostname course_name videos_json c w = (r, c', w')"
  proof -
    define c0 where "c0 = c\<lparr>processed_videos := [], queue := [(videos_json, [])],
          found_future_lecture := False, filename_bound := False\<rparr>"
    have "finite (processed_lecture_dates c0)" using assms by (simp add: c0_def)
    moreover have "traverse ev hostname course_name c0 w = (r, c', w')"
      using pass by (simp add: get_videos_pass_def c0_def)
    ultimately have "transcripts_within c0 w c' w'" by (rule traverse_within)
    then show ?thesis by (simp add: transcripts_within_def c0_def)
  qed
  have second: "\<exists>c1 w1. process_item ev hostname course_name folder item c w = (None, False, c1, w1)
               \<and> processed_lectures c1 = processed_lectures c + 1
               \<and> processed_lecture_dates c1 = processed_lecture_dates c
               \<and> requests w1 = requests w \<and> files w1 = files w
               \<and> mux_runs w1 = mux_runs w"
    if dup: "getitem item ''type'' = Inr (JStr t) \<and> is_substring ''lesson'' (lower t)
          \<and> getpath item [''lesson'', ''lesson'', ''id''] = Inr ident
          \<and> \<not> no_content ev (classroom_url hostname (py_str ev ident))
          \<and> lesson_media_id item = Inr media_id \<and> media_id \<noteq> JNull
          \<and> getpath item [''lesson'', ''lesson'', ''name''] = Inr (JStr name)
          \<and> lecture_date_of item = Inr (JStr d) \<and> d \<in> processed_lecture_dates c"
  proof -
    from dup have d: "getitem item ''type'' = Inr (JStr t)" "is_substring ''lesson'' (lower t)"
      "getpath item [''lesson'', ''lesson'', ''id''] = Inr ident"
      "\<not> no_content ev (classroom_url hostname (py_str ev ident))"
      "lesson_media_id item = Inr media_id" "media_id \<noteq> JNull"
      "getpath item [''lesson'', ''lesson'', ''name''] = Inr (JStr name)"
      "lecture_date_of item = Inr (JStr d)" "d \<in> processed_lecture_dates c"
      by blast+
    show ?thesis
      unfolding process_item_duplicate [OF d] by simp
  qed
  from first second show ?thesis by blast
qed

lemma lesson_type: "is_substring ''lesson'' (lower ''SyllabusLessonType'')"
  by (simp add: lower_def)

lemma lesson_json_facts:
  "getitem (lesson_json i n s) ''type'' = Inr (JStr ''SyllabusLessonType'')"
  "getpath (lesson_json i n s) [''lesson'', ''lesson'', ''id''] = Inr (JStr i)"
  "lesson_media_id (lesson_json i n s) = Inr (JStr (''m-'' @ i))"
  "getpath (lesson_json i n s) [''lesson'', ''lesson'', ''name''] = Inr (JStr n)"
  by (simp_all add: lesson_json_def lower_def lesson_media_id_def)

lemma lesson_json_date:
  "length s \<ge> 10 \<Longrightarrow> lecture_date_of (lesson_json i n s) = Inr (JStr (take 10 s))"
  by (auto simp: lesson_json_def lecture_date_of_def)

lemma process_item_first_of_date:
  assumes "getitem item ''type'' = Inr (JStr t)" and "is_substring ''lesson'' (lower t)"
    and "getpath item [''lesson'', ''lesson'', ''id''] = Inr ident"
    and "\<not> no_content ev (classroom_url hostname (py_str ev ident))"
    and "lesson_media_id item = Inr media_id" and "media_id \<noteq> JNull"
    and "getpath item [''lesson'', ''lesson'', ''name''] = Inr (JStr name)"
    and "lecture_date_of item = Inr (JStr d)" and "d \<notin> processed_lecture_dates c"
    and "course_dir = path_join ''default_out_path'' course_name"
    and "filename = d @ ''_'' @ strip_illegal_path ev name"
    and "dirty_path = path_join (path_join course_dir ''dirty'') (filename @ ''.vtt'')"
    and "\<not> exists w (path_join (path_join course_dir ''clean'') (filename @ ''.txt''))"
    and "vtt_url = transcript_url hostname (py_str ev ident) (py_str ev media_id)"
    and "status_code (session_get ev vtt_url) = 200"
  shows "process_item ev hostname course_name folder item c w
           = (None, False,
              c\<lparr>processed_videos := processed_videos c
                                      @ [setitem item ''path_prefix'' (JStr folder)],
                processed_lecture_dates := insert d (processed_lecture_dates c),
                filename_bound := True,
                processed_lectures := processed_lectures c + 1\<rparr>,
              write_file (path_join (path_join course_dir ''clean'')
                            (splitext_root (basename dirty_path) @ ''.txt''))
                (clean_text ev (content (session_get ev vtt_url)))
                (write_file dirty_path (content (session_get ev vtt_url))
                   (log_request (GET vtt_url)
                      (w\<lparr>visited := visited w
                                      @ [classroom_url hostname (py_str ev ident)]\<rparr>))))"
proof -
  obtain kvs where item: "item = JObj kvs" using assms(1) by (cases item) simp_all
  define item1 where "item1 = setitem item ''path_prefix'' (JStr folder)"
  define c0 where "c0 = c\<lparr>processed_videos := processed_videos c @ [item1]\<rparr>"
  define w0 where "w0 = w\<lparr>visited := visited w @ [classroom_url hostname (py_str ev ident)]\<rparr>"
  have n: "getpath item1 [''lesson'', ''lesson'', ''name''] = Inr (JStr name)"
    and i: "getpath item1 [''lesson'', ''lesson'', ''id''] = Inr ident"
    unfolding item1_def using assms(3,7)
    by (simp_all add: getpath_lesson_setitem del: getpath.simps)
  have m: "lesson_media_id item1 = Inr media_id" and ld: "lecture_date_of item1 = Inr (JStr d)"
    unfolding item1_def using assms(5,8)
    by (simp_all add: lesson_media_id_setitem lecture_date_of_setitem)
  have fresh: "d \<notin> processed_lecture_dates c0" using assms(9) by (simp add: c0_def)
  have ex: "\<not> exists w0 (path_join (path_join course_dir ''clean'') (filename @ ''.txt''))"
    using assms(13) by (simp add: exists_def w0_def)
  have "process_transcript ev hostname course_name item1 c0 w0
          = fetch_transcript ev hostname course_name item1 media_id (strip_illegal_path ev name)
              d c0 w0"
    using m assms(6) n ld fresh by (simp add: process_transcript_def)
  also have "\<dots> = (Normal,
       c0\<lparr>processed_lecture_dates := insert d (processed_lecture_dates c0),
           filename_bound := True\<rparr>,
       write_file (path_join (path_join course_dir ''clean'')
                            (splitext_root (basename dirty_path) @ ''.txt''))
                (clean_text ev (content (session_get ev vtt_url)))
                (write_file dirty_path (content (session_get ev vtt_url))
                   (log_request (GET vtt_url) w0)))"
    using ex i assms(15)
    unfolding assms(10,11,12,14)
    by (simp add: fetch_transcript_def Let_def del: getpath.simps)
  finally have pt: "process_transcript ev hostname course_name item1 c0 w0 = (Normal,
       c0\<lparr>processed_lecture_dates := insert d (processed_lecture_dates c0),
           filename_bound := True\<rparr>,
       write_file (path_join (path_join course_dir ''clean'')
                            (splitext_root (basename dirty_path) @ ''.txt''))
                (clean_text ev (content (session_get ev vtt_url)))
                (write_file dirty_path (content (session_get ev vtt_url))
                   (log_request (GET vtt_url) w0)))" .
  have "process_item ev hostname course_name folder item c w =
      (case process_transcript ev hostname course_name item1 c0 w0 of
         (Continue, c2, w2) \<Rightarrow> (None, False, c2, w2)
       | (Normal, c2, w2) \<Rightarrow>
           (None, False, c2\<lparr>processed_lectures := processed_lectures c2 + 1\<rparr>, w2)
       | (Raised e, c2, w2) \<Rightarrow>
           if filename_bound c2 then
             (None, False, c2\<lparr>processed_lectures := processed_lectures c2 + 1\<rparr>, w2)
           else (Some UnboundLocalError, False, c2, w2))"
    using assms(1-4) unfolding item item1_def c0_def w0_def
    by (simp add: process_item_def Let_def)
  then show ?thesis unfolding pt by (simp add: c0_def w0_def item1_def)
qed

lemma example_env_facts:
  "\<not> no_content example_env u"
  "py_str example_env (JStr s) = s"
  "strip_illegal_path example_env s = s"
  "status_code (session_get example_env u) = 200"
  by (simp_all add: example_env_def example_str_def)

lemma same_day_pass:
  "\<exists>c' w'. get_videos_pass example_env ''https://echo360.org'' ''Course'' two_same_day_json
               course_start empty_world = (None, c', w')
     \<and> processed_lectures c' = 2
     \<and> processed_lecture_dates c' = {''2024-03-05''}
     \<and> requests w'
         = [GET ''https://echo360.org/api/ui/echoplayer/lessons/L1/medias/m-L1/transcript-file?format=vtt'']"
proof -
  let ?i1 = "lesson_json ''L1'' ''First'' ''2024-03-05T09:00:00Z''"
  let ?i2 = "lesson_json ''L2'' ''Second'' ''2024-03-05T14:00:00Z''"
  let ?h = "''https://echo360.org''"
  define c0 where "c0 = course_start\<lparr>processed_videos := [],
          queue := [(two_same_day_json, [])], found_future_lecture := False,
          filename_bound := False\<rparr>"
  define cq where "cq = c0\<lparr>queue := []\<rparr>"
  have cq: "processed_lecture_dates cq = {}" "processed_lectures cq = 0" "queue cq = []"
    by (simp_all add: cq_def c0_def course_start_def)
  have fresh: "take 10 ''2024-03-05T09:00:00Z'' \<notin> processed_lecture_dates cq"
    by (simp add: cq)
  have nofile: "\<not> exists empty_world p" for p
    by (simp add: exists_def empty_world_def)
  define c1 where "c1 = cq\<lparr>processed_videos := processed_videos cq
                                      @ [setitem ?i1 ''path_prefix'' (JStr [])],
                processed_lecture_dates := insert (take 10 ''2024-03-05T09:00:00Z'')
                                             (processed_lecture_dates cq),
                filename_bound := True,
                processed_lectures := processed_lectures cq + 1\<rparr>"
  note j1 = lesson_json_facts [of "''L1''" "''First''" "''2024-03-05T09:00:00Z''"]
  note j2 = lesson_json_facts [of "''L2''" "''Second''" "''2024-03-05T14:00:00Z''"]
  have d1: "lecture_date_of ?i1 = Inr (JStr (take 10 ''2024-03-05T09:00:00Z''))"
    and d2: "lecture_date_of ?i2 = Inr (JStr (take 10 ''2024-03-05T14:00:00Z''))"
    by (simp_all add: lesson_json_date)
  have mnn: "JStr (''m-'' @ x) \<noteq> JNull" for x by simp
  obtain w1 where s1: "process_item example_env ?h ''Course'' [] ?i1 cq empty_world
                         = (None, False, c1, w1)"
    and r1: "requests w1 = [GET (transcript_url ?h ''L1'' ''m-L1'')]"
    using process_item_first_of_date [OF j1(1) lesson_type j1(2) example_env_facts(1)
        j1(3) mnn j1(4) d1 fresh refl refl refl
        nofile refl example_env_facts(4), where hostname = ?h and course_name = "''Course''"
        and folder = "[]"]
    by (simp add: c1_def example_env_facts write_file_def log_request_def empty_world_def)
  have c1: "processed_lecture_dates c1 = {''2024-03-05''}" "processed_lectures c1 = 1"
    "queue c1 = []"
    by (simp_all add: c1_def cq)
  have dup: "take 10 ''2024-03-05T14:00:00Z'' \<in> processed_lecture_dates c1"
    by (simp add: c1)
  define c2 where "c2 = c1\<lparr>processed_videos := processed_videos c1
                                      @ [setitem ?i2 ''path_prefix'' (JStr [])],
                processed_lectures := processed_lectures c1 + 1\<rparr>"
  define w2 where "w2 = w1\<lparr>visited := visited w1 @ [classroom_url ?h (py_str example_env (JStr ''L2''))]\<rparr>"
  have s2: "process_item example_env ?h ''Course'' [] ?i2 c1 w1 = (None, False, c2, w2)"
    using process_item_duplicate [OF j2(1) lesson_type j2(2) example_env_facts(1)
        j2(3) mnn j2(4) d2 dup,
        where hostname = ?h and course_name = "''Course''" and folder = "[]" and w = w1]
    by (simp add: c2_def w2_def)
  have c2: "processed_lecture_dates c2 = {''2024-03-05''}" "processed_lectures c2 = 2"
    "queue c2 = []"
    by (simp_all add: c2_def c1)
  have f: "for_items example_env ?h ''Course'' [] [?i1, ?i2] cq empty_world = (None, c2, w2)"
    by (simp add: s1 s2)
  have t2: "traverse example_env ?h ''Course'' c2 w2 = (None, c2, w2)"
    by (subst traverse.simps) (simp add: c2)
  have q0: "queue c0 = [(two_same_day_json, [])]" "\<not> found_future_lecture c0"
    by (simp_all add: c0_def)
  have "traverse example_env ?h ''Course'' c0 empty_world = (None, c2, w2)"
    by (subst traverse.simps)
       (simp add: q0 two_same_day_json_def f [unfolded cq_def] t2 del: for_items.simps)
  then have "get_videos_pass example_env ?h ''Course'' two_same_day_json course_start empty_world
               = (None, c2, w2)"
    by (simp add: get_videos_pass_def c0_def)
  moreover have "requests w2 = [GET (transcript_url ?h ''L1'' ''m-L1'')]"
    by (simp add: w2_def r1)
  ultimately show ?thesis using c2 by (simp add: transcript_url_def)
qed

theorem one_transcript_per_date_witness:
  "finite (processed_lecture_dates course_start)
   \<and> (\<exists>c' w'. get_videos_pass example_env ''https://echo360.org'' ''Course'' two_same_day_json
                  course_start empty_world = (None, c', w')
         \<and> processed_lectures c' = 2
         \<and> processed_lecture_dates c' = {''2024-03-05''}
         \<and> requests w'
             = [GET ''https://echo360.org/api/ui/echoplayer/lessons/L1/medias/m-L1/transcript-file?format=vtt'']
         \<and> length (requests w') + card (processed_lecture_dates course_start)
               \<le> length (requests empty_world) + card (processed_lecture_dates c'))
   \<and> (\<exists>c1 w1. process_item example_env ''https://echo360.org'' ''Course'' []
                  (lesson_json ''L2'' ''Second'' ''2024-03-05T14:00:00Z'')
                  course_after_first empty_world = (None, False, c1, w1)
         \<and> processed_lectures c1 = 2
         \<and> requests w1 = [] \<and> files w1 = Map.empty)"
proof -
  let ?h = "''https://echo360.org''"
  let ?i2 = "lesson_json ''L2'' ''Second'' ''2024-03-05T14:00:00Z''"
  have fin: "finite (processed_lecture_dates course_start)"
    by (simp add: course_start_def)
  have fin1: "finite (processed_lecture_dates course_after_first)"
    by (simp add: course_after_first_def)
  obtain c' w' where pass: "get_videos_pass example_env ?h ''Course'' two_same_day_json
               course_start empty_world = (None, c', w')"
    and res: "processed_lectures c' = 2" "processed_lecture_dates c' = {''2024-03-05''}"
      "requests w' = [GET ''https://echo360.org/api/ui/echoplayer/lessons/L1/medias/m-L1/transcript-file?format=vtt'']"
    using same_day_pass by blast
  have count: "length (requests w') + card (processed_lecture_dates course_start)
               \<le> length (requests empty_world) + card (processed_lecture_dates c')"
    using one_transcript_per_date [OF fin, THEN conjunct1, rule_format, OF pass] by blast
  note j2 = lesson_json_facts [of "''L2''" "''Second''" "''2024-03-05T14:00:00Z''"]
  have hyps: "getitem ?i2 ''type'' = Inr (JStr ''SyllabusLessonType'')
          \<and> is_substring ''lesson'' (lower ''SyllabusLessonType'')
          \<and> getpath ?i2 [''lesson'', ''lesson'', ''id''] = Inr (JStr ''L2'')
          \<and> \<not> no_content example_env (classroom_url ?h (py_str example_env (JStr ''L2'')))
          \<and> lesson_media_id ?i2 = Inr (JStr (''m-'' @ ''L2'')) \<and> JStr (''m-'' @ ''L2'') \<noteq> JNull
          \<and> getpath ?i2 [''lesson'', ''lesson'', ''name''] = Inr (JStr ''Second'')
          \<and> lecture_date_of ?i2 = Inr (JStr ''2024-03-05'')
          \<and> ''2024-03-05'' \<in> processed_lecture_dates course_after_first"
    using j2 lesson_type example_env_facts(1)
    by (simp add: lesson_json_date course_after_first_def del: getpath.simps)
  obtain c1 w1 where "process_item example_env ?h ''Course'' [] ?i2 course_after_first empty_world
        = (None, False, c1, w1)"
    "processed_lectures c1 = processed_lectures course_after_first + 1"
    "requests w1 = requests empty_world" "files w1 = files empty_world"
    using one_transcript_per_date [OF fin1, THEN conjunct2, rule_format, OF hyps] by blast
  then have "\<exists>c1 w1. process_item example_env ?h ''Course'' [] ?i2
                  course_after_first empty_world = (None, False, c1, w1)
         \<and> processed_lectures c1 = 2 \<and> requests w1 = [] \<and> files w1 = Map.empty"
    by (simp add: course_after_first_def course_start_def empty_world_def)
  then show ?thesis using fin pass res count by blast
qed

end
